theory Spec2Isabelle
  imports Main
begin

section \<open>The instrumented connection decorator (conn.go, conn\_go19.go)\<close>

text \<open>
  A shallow embedding of \<open>WrappedConn\<close> and its methods. Go's multiple results
  \<open>(value, error)\<close> are pairs whose components may each be nil (\<open>None\<close>). Every effect
  of a method (a call of the wrapped connection, a tracer call, a logger call, a reading
  of the clock) is a step on an explicit world state.
\<close>

subsection \<open>Values of database/sql/driver and context\<close>

text \<open>Go error values. \<open>driver.ErrSkip\<close>, the two errors of package context, and any
  other error value, told apart by its message.\<close>

datatype error = ErrSkip | Canceled | DeadlineExceeded | ErrorString string

text \<open>\<open>driver.Value\<close> is an empty interface; the decorator never looks inside one.\<close>

datatype driver_Value = VNil | VInt int | VString string | VBool bool

record NamedValue =
  Name :: string
  Ordinal :: int
  Value :: driver_Value

record TxOptions =
  Isolation :: int
  ReadOnly :: bool

text \<open>The artifacts a driver hands out are opaque to the decorator.\<close>

datatype driver_Stmt = Stmt nat
datatype driver_Tx = Tx nat
datatype driver_Result = Result nat
datatype driver_Rows = Rows nat

text \<open>Modelled from the spec: the operation kinds (constants \<open>OpSQL...\<close> declared outside
  conn.go) form a closed enumeration; these are the six that conn.go uses.\<close>

datatype op = OpSQLTxBegin | OpSQLPrepare | OpSQLConnExec | OpSQLConnQuery
  | OpSQLPing | OpSQLDummyPing

text \<open>A span of the tracer: the one carried by a context, or a child made by
  \<open>NewChild\<close>.\<close>

datatype span = CtxSpan nat | ChildSpan span op

text \<open>A \<open>context.Context\<close> as the decorator reads it during one call: \<open>ctx.Err()\<close>
  (non-nil exactly when \<open>ctx.Done()\<close> is closed) and the span the tracer finds in it.\<close>

record Context =
  ctx_Err :: "error option"
  ctx_Span :: span

definition ctx_Done :: "Context \<Rightarrow> bool" where
  "ctx_Done ctx = (ctx_Err ctx \<noteq> None)"

text \<open>Modelled from the spec: the embedded \<open>opts\<close> struct is declared outside conn.go;
  it holds the set of excluded operation kinds and the flag to omit arguments (the tracer
  and logger handles act through the world state below).\<close>

record opts =
  excludedOps :: "op set"
  OmitArgs :: bool

definition hasOpExcluded :: "opts \<Rightarrow> op \<Rightarrow> bool" where
  "hasOpExcluded os k = (k \<in> excludedOps os)"

text \<open>Modelled from the spec: \<open>GetSpan\<close> of the tracer returns the span associated with the
  incoming context.\<close>

definition GetSpan :: "opts \<Rightarrow> Context \<Rightarrow> span" where
  "GetSpan os ctx = ctx_Span ctx"

subsection \<open>The wrapped connection and the wrappers\<close>

text \<open>\<open>driver.Conn\<close> over a driver state \<open>'d\<close>: the three methods every connection has,
  and each optional interface as an optional method (\<open>None\<close>: the type assertion
  \<open>c.Parent.(driver.X)\<close> fails).\<close>

record 'd driver_Conn =
  conn_Prepare :: "string \<Rightarrow> 'd \<Rightarrow> (driver_Stmt option \<times> error option) \<times> 'd"
  conn_Close :: "'d \<Rightarrow> error option \<times> 'd"
  conn_Begin :: "'d \<Rightarrow> (driver_Tx option \<times> error option) \<times> 'd"
  ConnBeginTx :: "(Context \<Rightarrow> TxOptions \<Rightarrow> 'd \<Rightarrow> (driver_Tx option \<times> error option) \<times> 'd) option"
  ConnPrepareContext :: "(Context \<Rightarrow> string \<Rightarrow> 'd \<Rightarrow> (driver_Stmt option \<times> error option) \<times> 'd) option"
  Execer :: "(string \<Rightarrow> driver_Value list \<Rightarrow> 'd \<Rightarrow> (driver_Result option \<times> error option) \<times> 'd) option"
  ExecerContext :: "(Context \<Rightarrow> string \<Rightarrow> NamedValue list \<Rightarrow> 'd \<Rightarrow> (driver_Result option \<times> error option) \<times> 'd) option"
  Pinger :: "(Context \<Rightarrow> 'd \<Rightarrow> error option \<times> 'd) option"
  Queryer :: "(string \<Rightarrow> driver_Value list \<Rightarrow> 'd \<Rightarrow> (driver_Rows option \<times> error option) \<times> 'd) option"
  QueryerContext :: "(Context \<Rightarrow> string \<Rightarrow> NamedValue list \<Rightarrow> 'd \<Rightarrow> (driver_Rows option \<times> error option) \<times> 'd) option"
  NamedValueChecker :: "(NamedValue \<Rightarrow> 'd \<Rightarrow> (NamedValue \<times> error option) \<times> 'd) option"

record 'd WrappedConn =
  conn_opts :: opts
  Parent :: "'d driver_Conn"

text \<open>The wrappers are declared outside conn.go; these are the fields its struct literals
  set. A field the literal leaves out is nil.\<close>

record wrappedStmt =
  stmt_opts :: opts
  stmt_ctx :: "Context option"
  stmt_query :: string
  stmt_parent :: "driver_Stmt option"

record wrappedTx =
  tx_opts :: opts
  tx_ctx :: "Context option"
  tx_parent :: "driver_Tx option"

record wrappedResult =
  result_opts :: opts
  result_ctx :: "Context option"
  result_parent :: "driver_Result option"

record wrappedRows =
  rows_opts :: opts
  rows_ctx :: "Context option"
  rows_parent :: "driver_Rows option"

subsection \<open>The world: driver state, clock, and the trace of effects\<close>

datatype parent_call =
    CallPrepare string
  | CallClose
  | CallBegin
  | CallBeginTx Context TxOptions
  | CallPrepareContext Context string
  | CallExec string "driver_Value list"
  | CallExecContext Context string "NamedValue list"
  | CallPing Context
  | CallQuery string "driver_Value list"
  | CallQueryContext Context string "NamedValue list"
  | CallCheckNamedValue NamedValue

datatype log_value = LErr "error option" | LDuration int

datatype event =
    EvParent parent_call
  | EvNewChild span op
  | EvSetLabel span string string
  | EvSetError span "error option"
  | EvFinish span
  | EvLog Context op "(string \<times> log_value) list"
  | EvLogQuery Context opts op string "error option" "NamedValue list option" int

text \<open>\<open>clock k\<close> is what the \<open>k\<close>-th reading of the wall clock returns; \<open>ticks\<close> counts
  the readings made so far.\<close>

record 'd world =
  drv :: 'd
  events :: "event list"
  clock :: "nat \<Rightarrow> int"
  ticks :: nat

definition emit :: "event \<Rightarrow> 'd world \<Rightarrow> 'd world" where
  "emit ev w = w\<lparr>events := events w @ [ev]\<rparr>"

text \<open>A call of a method of the wrapped connection: the call is recorded, the driver
  state moves on.\<close>

definition call_parent :: "parent_call \<Rightarrow> ('d \<Rightarrow> 'a \<times> 'd) \<Rightarrow> 'd world \<Rightarrow> 'a \<times> 'd world" where
  "call_parent pc f w =
     (let (r, d') = f (drv w) in (r, emit (EvParent pc) (w\<lparr>drv := d'\<rparr>)))"

definition time_Now :: "'d world \<Rightarrow> int \<times> 'd world" where
  "time_Now w = (clock w (ticks w), w\<lparr>ticks := Suc (ticks w)\<rparr>)"

definition time_Since :: "int \<Rightarrow> 'd world \<Rightarrow> int \<times> 'd world" where
  "time_Since start w = (clock w (ticks w) - start, w\<lparr>ticks := Suc (ticks w)\<rparr>)"

definition NewChild :: "span \<Rightarrow> op \<Rightarrow> 'd world \<Rightarrow> span \<times> 'd world" where
  "NewChild parent k w = (ChildSpan parent k, emit (EvNewChild parent k) w)"

definition SetLabel :: "span \<Rightarrow> string \<Rightarrow> string \<Rightarrow> 'd world \<Rightarrow> 'd world" where
  "SetLabel sp key val w = emit (EvSetLabel sp key val) w"

definition SetError :: "span \<Rightarrow> error option \<Rightarrow> 'd world \<Rightarrow> 'd world" where
  "SetError sp err w = emit (EvSetError sp err) w"

definition Finish :: "span \<Rightarrow> 'd world \<Rightarrow> 'd world" where
  "Finish sp w = emit (EvFinish sp) w"

definition Log :: "Context \<Rightarrow> op \<Rightarrow> (string \<times> log_value) list \<Rightarrow> 'd world \<Rightarrow> 'd world" where
  "Log ctx k keyvals w = emit (EvLog ctx k keyvals) w"

text \<open>Modelled from the spec: \<open>logQuery\<close> is declared outside conn.go; it emits the log
  record of a query operation (operation kind, error, duration since \<open>start\<close>). The record
  is kept as the call with its arguments.\<close>

definition logQuery :: "Context \<Rightarrow> opts \<Rightarrow> op \<Rightarrow> string \<Rightarrow> error option
    \<Rightarrow> NamedValue list option \<Rightarrow> int \<Rightarrow> 'd world \<Rightarrow> 'd world" where
  "logQuery ctx os k query err args start w = emit (EvLogQuery ctx os k query err args start) w"

text \<open>The two pure helpers declared outside conn.go, taken as parameters:
  \<open>namedValueToValue\<close> (positional values, or an error) and \<open>formatArgs\<close>.\<close>

record helpers =
  namedValueToValue :: "NamedValue list \<Rightarrow> driver_Value list \<times> error option"
  formatArgs :: "NamedValue list \<Rightarrow> string"

subsection \<open>The methods of WrappedConn\<close>

definition Prepare :: "'d WrappedConn \<Rightarrow> string \<Rightarrow> 'd world
    \<Rightarrow> (wrappedStmt option \<times> error option) \<times> 'd world" where
  "Prepare c query w =
     (let ((parent, err), w1) = call_parent (CallPrepare query) (conn_Prepare (Parent c) query) w
      in if err \<noteq> None then ((None, err), w1)
         else ((Some \<lparr>stmt_opts = conn_opts c, stmt_ctx = None, stmt_query = query,
                       stmt_parent = parent\<rparr>, None), w1))"

definition Close :: "'d WrappedConn \<Rightarrow> 'd world \<Rightarrow> error option \<times> 'd world" where
  "Close c w = call_parent CallClose (conn_Close (Parent c)) w"

definition Begin :: "'d WrappedConn \<Rightarrow> 'd world \<Rightarrow> (wrappedTx option \<times> error option) \<times> 'd world" where
  "Begin c w =
     (let ((tx, err), w1) = call_parent CallBegin (conn_Begin (Parent c)) w
      in if err \<noteq> None then ((None, err), w1)
         else ((Some \<lparr>tx_opts = conn_opts c, tx_ctx = None, tx_parent = tx\<rparr>, None), w1))"

text \<open>In the instrumented methods, \<open>deferred\<close> holds what the deferred closure captured
  (the span and the start time) when the \<open>if\<close> block registered it; the closure runs
  after the results \<open>(tx, err)\<close> are set, on every return path.\<close>

definition BeginTx :: "'d WrappedConn \<Rightarrow> Context \<Rightarrow> TxOptions \<Rightarrow> 'd world
    \<Rightarrow> (wrappedTx option \<times> error option) \<times> 'd world" where
  "BeginTx c ctx txopts w0 =
     (let (deferred, w1) =
            (if \<not> hasOpExcluded (conn_opts c) OpSQLTxBegin then
               (let (span, wa) = NewChild (GetSpan (conn_opts c) ctx) OpSQLTxBegin w0;
                    wb = SetLabel span ''component'' ''database/sql'' wa;
                    (start, wc) = time_Now wb
                in (Some (span, start), wc))
             else (None, w0));
          ((r, err), w2) =
            (case ConnBeginTx (Parent c) of
               Some connBeginTx \<Rightarrow>
                 (let ((tx, err), wa) =
                        call_parent (CallBeginTx ctx txopts) (connBeginTx ctx txopts) w1
                  in if err \<noteq> None then ((None, err), wa)
                     else ((Some \<lparr>tx_opts = conn_opts c, tx_ctx = Some ctx, tx_parent = tx\<rparr>,
                            None), wa))
             | None \<Rightarrow>
                 (let ((tx, err), wa) = call_parent CallBegin (conn_Begin (Parent c)) w1
                  in if err \<noteq> None then ((None, err), wa)
                     else ((Some \<lparr>tx_opts = conn_opts c, tx_ctx = Some ctx, tx_parent = tx\<rparr>,
                            None), wa)))
      in case deferred of
           None \<Rightarrow> ((r, err), w2)
         | Some (span, start) \<Rightarrow>
             (let wa = SetError span err w2;
                  wb = Finish span wa;
                  (d, wc) = time_Since start wb
              in ((r, err),
                  Log ctx OpSQLTxBegin [(''err'', LErr err), (''duration'', LDuration d)] wc)))"

definition PrepareContext :: "'d WrappedConn \<Rightarrow> Context \<Rightarrow> string \<Rightarrow> 'd world
    \<Rightarrow> (wrappedStmt option \<times> error option) \<times> 'd world" where
  "PrepareContext c ctx query w0 =
     (let (deferred, w1) =
            (if \<not> hasOpExcluded (conn_opts c) OpSQLPrepare then
               (let (span, wa) = NewChild (GetSpan (conn_opts c) ctx) OpSQLPrepare w0;
                    wb = SetLabel span ''component'' ''database/sql'' wa;
                    (start, wc) = time_Now wb
                in (Some (span, start), wc))
             else (None, w0));
          ((r, err), w2) =
            (case ConnPrepareContext (Parent c) of
               Some connPrepareCtx \<Rightarrow>
                 (let ((stmt, err), wa) =
                        call_parent (CallPrepareContext ctx query) (connPrepareCtx ctx query) w1
                  in if err \<noteq> None then ((None, err), wa)
                     else ((Some \<lparr>stmt_opts = conn_opts c, stmt_ctx = Some ctx,
                                   stmt_query = query, stmt_parent = stmt\<rparr>, None), wa))
             | None \<Rightarrow> Prepare c query w1)
      in case deferred of
           None \<Rightarrow> ((r, err), w2)
         | Some (span, start) \<Rightarrow>
             (let wa = SetError span err w2;
                  wb = Finish span wa
              in ((r, err), logQuery ctx (conn_opts c) OpSQLPrepare query err None start wb)))"

definition Exec :: "'d WrappedConn \<Rightarrow> string \<Rightarrow> driver_Value list \<Rightarrow> 'd world
    \<Rightarrow> (wrappedResult option \<times> error option) \<times> 'd world" where
  "Exec c query args w =
     (case Execer (Parent c) of
        Some execer \<Rightarrow>
          (let ((res, err), w1) = call_parent (CallExec query args) (execer query args) w
           in if err \<noteq> None then ((None, err), w1)
              else ((Some \<lparr>result_opts = conn_opts c, result_ctx = None, result_parent = res\<rparr>,
                     None), w1))
      | None \<Rightarrow> ((None, Some ErrSkip), w))"

definition ExecContext :: "helpers \<Rightarrow> 'd WrappedConn \<Rightarrow> Context \<Rightarrow> string \<Rightarrow> NamedValue list
    \<Rightarrow> 'd world \<Rightarrow> (wrappedResult option \<times> error option) \<times> 'd world" where
  "ExecContext h c ctx query args w0 =
     (let (deferred, w1) =
            (if \<not> hasOpExcluded (conn_opts c) OpSQLConnExec then
               (let (span, wa) = NewChild (GetSpan (conn_opts c) ctx) OpSQLConnExec w0;
                    wb = SetLabel span ''component'' ''database/sql'' wa;
                    wc = SetLabel span ''query'' query wb;
                    wd = (if \<not> OmitArgs (conn_opts c)
                          then SetLabel span ''args'' (formatArgs h args) wc else wc);
                    (start, we) = time_Now wd
                in (Some (span, start), we))
             else (None, w0));
          ((r, err), w2) =
            (case ExecerContext (Parent c) of
               Some execContext \<Rightarrow>
                 (let ((res, err), wa) =
                        call_parent (CallExecContext ctx query args) (execContext ctx query args) w1
                  in if err \<noteq> None then ((None, err), wa)
                     else ((Some \<lparr>result_opts = conn_opts c, result_ctx = Some ctx,
                                   result_parent = res\<rparr>, None), wa))
             | None \<Rightarrow>
                 (let (dargs, err) = namedValueToValue h args
                  in if err \<noteq> None then ((None, err), w1)
                     else if ctx_Done ctx then ((None, ctx_Err ctx), w1)
                     else Exec c query dargs w1))
      in case deferred of
           None \<Rightarrow> ((r, err), w2)
         | Some (span, start) \<Rightarrow>
             (let wa = SetError span err w2;
                  wb = Finish span wa
              in ((r, err),
                  logQuery ctx (conn_opts c) OpSQLConnExec query err (Some args) start wb)))"

definition Ping :: "'d WrappedConn \<Rightarrow> Context \<Rightarrow> 'd world \<Rightarrow> error option \<times> 'd world" where
  "Ping c ctx w0 =
     (case Pinger (Parent c) of
        Some pinger \<Rightarrow>
          (let (deferred, w1) =
                 (if \<not> hasOpExcluded (conn_opts c) OpSQLPing then
                    (let (span, wa) = NewChild (GetSpan (conn_opts c) ctx) OpSQLPing w0;
                         wb = SetLabel span ''component'' ''database/sql'' wa;
                         (start, wc) = time_Now wb
                     in (Some (span, start), wc))
                  else (None, w0));
               (err, w2) = call_parent (CallPing ctx) (pinger ctx) w1
           in case deferred of
                None \<Rightarrow> (err, w2)
              | Some (span, start) \<Rightarrow>
                  (let wa = SetError span err w2;
                       wb = Finish span wa;
                       (d, wc) = time_Since start wb
                   in (err,
                       Log ctx OpSQLPing [(''err'', LErr err), (''duration'', LDuration d)] wc)))
      | None \<Rightarrow> (None, Log ctx OpSQLDummyPing [(''duration'', LDuration 0)] w0))"

definition Query :: "'d WrappedConn \<Rightarrow> string \<Rightarrow> driver_Value list \<Rightarrow> 'd world
    \<Rightarrow> (wrappedRows option \<times> error option) \<times> 'd world" where
  "Query c query args w =
     (case Queryer (Parent c) of
        Some queryer \<Rightarrow>
          (let ((rows, err), w1) = call_parent (CallQuery query args) (queryer query args) w
           in if err \<noteq> None then ((None, err), w1)
              else ((Some \<lparr>rows_opts = conn_opts c, rows_ctx = None, rows_parent = rows\<rparr>,
                     None), w1))
      | None \<Rightarrow> ((None, Some ErrSkip), w))"

definition QueryContext :: "helpers \<Rightarrow> 'd WrappedConn \<Rightarrow> Context \<Rightarrow> string \<Rightarrow> NamedValue list
    \<Rightarrow> 'd world \<Rightarrow> (wrappedRows option \<times> error option) \<times> 'd world" where
  "QueryContext h c ctx query args w0 =
     (let hasQueryerContext = (QueryerContext (Parent c) \<noteq> None);
          hasQueryer = (Queryer (Parent c) \<noteq> None)
      in if \<not> hasQueryerContext \<and> \<not> hasQueryer then ((None, Some ErrSkip), w0)
         else
          (let (deferred, w1) =
                 (if \<not> hasOpExcluded (conn_opts c) OpSQLConnQuery then
                    (let (span, wa) = NewChild (GetSpan (conn_opts c) ctx) OpSQLConnQuery w0;
                         wb = SetLabel span ''component'' ''database/sql'' wa;
                         wc = SetLabel span ''query'' query wb;
                         wd = (if \<not> OmitArgs (conn_opts c)
                               then SetLabel span ''args'' (formatArgs h args) wc else wc);
                         (start, we) = time_Now wd
                     in (Some (span, start), we))
                  else (None, w0));
               ((r, err), w2) =
                 (case QueryerContext (Parent c) of
                    Some queryerContext \<Rightarrow>
                      (let ((rows, err), wa) =
                             call_parent (CallQueryContext ctx query args)
                               (queryerContext ctx query args) w1
                       in if err \<noteq> None then ((None, err), wa)
                          else ((Some \<lparr>rows_opts = conn_opts c, rows_ctx = Some ctx,
                                        rows_parent = rows\<rparr>, None), wa))
                  | None \<Rightarrow>
                      (let (dargs, err) = namedValueToValue h args
                       in if err \<noteq> None then ((None, err), w1)
                          else if ctx_Done ctx then ((None, ctx_Err ctx), w1)
                          else Query c query dargs w1))
           in case deferred of
                None \<Rightarrow> ((r, err), w2)
              | Some (span, start) \<Rightarrow>
                  (let wa = SetError span err w2;
                       wb = Finish span wa
                   in ((r, err),
                       logQuery ctx (conn_opts c) OpSQLConnQuery query err (Some args) start wb))))"

text \<open>\<open>CheckNamedValue\<close> receives a pointer: the checker may rewrite the value in place, so
  the value after the call is part of the result.\<close>

definition CheckNamedValue :: "'d WrappedConn \<Rightarrow> NamedValue \<Rightarrow> 'd world
    \<Rightarrow> (NamedValue \<times> error option) \<times> 'd world" where
  "CheckNamedValue c v w =
     (case NamedValueChecker (Parent c) of
        Some checker \<Rightarrow> call_parent (CallCheckNamedValue v) (checker v) w
      | None \<Rightarrow> ((v, Some ErrSkip), w))"

subsection \<open>Reading the trace\<close>

text \<open>The events a method added to the trace of the world it started from.\<close>

definition new_events :: "'d world \<Rightarrow> 'd world \<Rightarrow> event list" where
  "new_events w w' = drop (length (events w)) (events w')"

fun parent_calls :: "event list \<Rightarrow> parent_call list" where
  "parent_calls [] = []"
| "parent_calls (EvParent pc # evs) = pc # parent_calls evs"
| "parent_calls (_ # evs) = parent_calls evs"

fun is_span_created :: "event \<Rightarrow> bool" where
  "is_span_created (EvNewChild _ _) = True"
| "is_span_created _ = False"

fun is_log_record :: "event \<Rightarrow> bool" where
  "is_log_record (EvLog _ _ _) = True"
| "is_log_record (EvLogQuery _ _ _ _ _ _ _) = True"
| "is_log_record _ = False"

text \<open>Everything the tracer and the logger were asked to do: all events but the calls of
  the wrapped connection.\<close>

fun is_instrumentation :: "event \<Rightarrow> bool" where
  "is_instrumentation (EvParent _) = False"
| "is_instrumentation _ = True"

abbreviation calls_made :: "'d world \<Rightarrow> 'd world \<Rightarrow> parent_call list" where
  "calls_made w w' \<equiv> parent_calls (new_events w w')"

text \<open>No span was created and no log record was emitted between \<open>w\<close> and \<open>w'\<close>.\<close>

definition no_span_no_log :: "'d world \<Rightarrow> 'd world \<Rightarrow> bool" where
  "no_span_no_log w w' =
     (filter (\<lambda>ev. is_span_created ev \<or> is_log_record ev) (new_events w w') = [])"

subsection \<open>Example connections\<close>

text \<open>Three drivers to run the methods on. The driver state counts the calls made so far.
  \<open>bare_conn\<close> has the three base methods only, \<open>legacy_conn\<close> adds \<open>Execer\<close> and
  \<open>Queryer\<close>, \<open>modern_conn\<close> implements every optional interface.\<close>

definition ex_Prepare :: "string \<Rightarrow> nat \<Rightarrow> (driver_Stmt option \<times> error option) \<times> nat" where
  "ex_Prepare q d =
     (if q = [] then ((None, Some (ErrorString ''empty query'')), Suc d)
      else ((Some (Stmt d), None), Suc d))"

definition ex_Close :: "nat \<Rightarrow> error option \<times> nat" where
  "ex_Close d = (None, Suc d)"

definition ex_Begin :: "nat \<Rightarrow> (driver_Tx option \<times> error option) \<times> nat" where
  "ex_Begin d = ((Some (Tx d), None), Suc d)"

definition ex_BeginTx :: "Context \<Rightarrow> TxOptions \<Rightarrow> nat \<Rightarrow> (driver_Tx option \<times> error option) \<times> nat" where
  "ex_BeginTx ctx txopts d =
     (if ReadOnly txopts then ((None, Some (ErrorString ''read-only not supported'')), Suc d)
      else ((Some (Tx d), None), Suc d))"

definition ex_PrepareContext :: "Context \<Rightarrow> string \<Rightarrow> nat
    \<Rightarrow> (driver_Stmt option \<times> error option) \<times> nat" where
  "ex_PrepareContext ctx q d = ex_Prepare q d"

definition ex_Exec :: "string \<Rightarrow> driver_Value list \<Rightarrow> nat
    \<Rightarrow> (driver_Result option \<times> error option) \<times> nat" where
  "ex_Exec q vals d =
     (if q = [] then ((None, Some (ErrorString ''empty query'')), Suc d)
      else ((Some (Result (length vals)), None), Suc d))"

definition ex_ExecContext :: "Context \<Rightarrow> string \<Rightarrow> NamedValue list \<Rightarrow> nat
    \<Rightarrow> (driver_Result option \<times> error option) \<times> nat" where
  "ex_ExecContext ctx q args d = ex_Exec q (map Value args) d"

definition ex_Ping :: "Context \<Rightarrow> nat \<Rightarrow> error option \<times> nat" where
  "ex_Ping ctx d = (ctx_Err ctx, Suc d)"

definition ex_Query :: "string \<Rightarrow> driver_Value list \<Rightarrow> nat
    \<Rightarrow> (driver_Rows option \<times> error option) \<times> nat" where
  "ex_Query q vals d =
     (if q = [] then ((None, Some (ErrorString ''empty query'')), Suc d)
      else ((Some (Rows (length vals)), None), Suc d))"

definition ex_QueryContext :: "Context \<Rightarrow> string \<Rightarrow> NamedValue list \<Rightarrow> nat
    \<Rightarrow> (driver_Rows option \<times> error option) \<times> nat" where
  "ex_QueryContext ctx q args d = ex_Query q (map Value args) d"

definition ex_CheckNamedValue :: "NamedValue \<Rightarrow> nat \<Rightarrow> (NamedValue \<times> error option) \<times> nat" where
  "ex_CheckNamedValue v d =
     (if Name v = [] then ((v, None), Suc d)
      else ((v, Some (ErrorString ''named parameters not supported'')), Suc d))"

definition bare_conn :: "nat driver_Conn" where
  "bare_conn =
     \<lparr>conn_Prepare = ex_Prepare, conn_Close = ex_Close, conn_Begin = ex_Begin,
      ConnBeginTx = None, ConnPrepareContext = None, Execer = None, ExecerContext = None,
      Pinger = None, Queryer = None, QueryerContext = None, NamedValueChecker = None\<rparr>"

definition legacy_conn :: "nat driver_Conn" where
  "legacy_conn = bare_conn\<lparr>Execer := Some ex_Exec, Queryer := Some ex_Query\<rparr>"

definition modern_conn :: "nat driver_Conn" where
  "modern_conn =
     \<lparr>conn_Prepare = ex_Prepare, conn_Close = ex_Close, conn_Begin = ex_Begin,
      ConnBeginTx = Some ex_BeginTx, ConnPrepareContext = Some ex_PrepareContext,
      Execer = Some ex_Exec, ExecerContext = Some ex_ExecContext,
      Pinger = Some ex_Ping, Queryer = Some ex_Query, QueryerContext = Some ex_QueryContext,
      NamedValueChecker = Some ex_CheckNamedValue\<rparr>"

text \<open>A conversion helper that refuses named parameters, and a rendering of the arguments
  by their names.\<close>

definition ex_namedValueToValue :: "NamedValue list \<Rightarrow> driver_Value list \<times> error option" where
  "ex_namedValueToValue args =
     (if filter (\<lambda>a. Name a \<noteq> []) args \<noteq> []
      then ([], Some (ErrorString ''named parameters not supported''))
      else (map Value args, None))"

definition ex_helpers :: helpers where
  "ex_helpers = \<lparr>namedValueToValue = ex_namedValueToValue,
                  formatArgs = (\<lambda>args. concat (map Name args))\<rparr>"

definition all_ops :: opts where
  "all_ops = \<lparr>excludedOps = {}, OmitArgs = False\<rparr>"

definition quiet_ops :: opts where
  "quiet_ops = \<lparr>excludedOps = {OpSQLTxBegin, OpSQLPrepare, OpSQLConnExec, OpSQLConnQuery,
                    OpSQLPing}, OmitArgs = False\<rparr>"

definition live_ctx :: Context where
  "live_ctx = \<lparr>ctx_Err = None, ctx_Span = CtxSpan 7\<rparr>"

definition cancelled_ctx :: Context where
  "cancelled_ctx = \<lparr>ctx_Err = Some Canceled, ctx_Span = CtxSpan 7\<rparr>"

definition arg1 :: NamedValue where
  "arg1 = \<lparr>Name = [], Ordinal = 1, Value = VInt 42\<rparr>"

definition named_arg :: NamedValue where
  "named_arg = \<lparr>Name = ''id'', Ordinal = 1, Value = VInt 42\<rparr>"

definition rw_tx :: TxOptions where
  "rw_tx = \<lparr>Isolation = 0, ReadOnly = False\<rparr>"

definition ro_tx :: TxOptions where
  "ro_tx = \<lparr>Isolation = 0, ReadOnly = True\<rparr>"

definition world0 :: "nat world" where
  "world0 = \<lparr>drv = 0, events = [], clock = (\<lambda>k. 10 * int k), ticks = 0\<rparr>"

section \<open>Properties\<close>

lemmas prims = emit_def call_parent_def time_Now_def time_Since_def NewChild_def SetLabel_def
  SetError_def Finish_def Log_def logQuery_def GetSpan_def hasOpExcluded_def ctx_Done_def
  new_events_def no_span_no_log_def

lemmas fixtures = bare_conn_def legacy_conn_def modern_conn_def ex_Prepare_def ex_Close_def
  ex_Begin_def ex_BeginTx_def ex_PrepareContext_def ex_Exec_def ex_ExecContext_def ex_Ping_def
  ex_Query_def ex_QueryContext_def ex_CheckNamedValue_def ex_namedValueToValue_def
  ex_helpers_def all_ops_def quiet_ops_def live_ctx_def cancelled_ctx_def arg1_def
  named_arg_def rw_tx_def ro_tx_def world0_def

subsection \<open>Ping without a pinger\<close>

text \<open>
  Claim C4. When the wrapped connection does not implement \<open>driver.Pinger\<close>, \<open>Ping\<close>
  returns a nil error, leaves the driver alone, and adds exactly one event to the trace:
  the log record of kind \<open>OpSQLDummyPing\<close> with duration zero. So no span is created.
  Nothing is assumed of the options: the exclusion set is not consulted on this path.
\<close>

theorem Ping_without_pinger:
  "Pinger (Parent c) = None \<Longrightarrow>
     fst (Ping c ctx w) = None \<and>
     new_events w (snd (Ping c ctx w)) = [EvLog ctx OpSQLDummyPing [(''duration'', LDuration 0)]] \<and>
     drv (snd (Ping c ctx w)) = drv w"
  by (simp add: Ping_def prims)

theorem Ping_without_pinger_witness:
  "Pinger (Parent \<lparr>conn_opts = quiet_ops, Parent = legacy_conn\<rparr>) = None \<and>
   hasOpExcluded quiet_ops OpSQLPing \<and>
   Ping \<lparr>conn_opts = quiet_ops, Parent = legacy_conn\<rparr> live_ctx world0
     = (None, world0\<lparr>events := [EvLog live_ctx OpSQLDummyPing [(''duration'', LDuration 0)]]\<rparr>)"
  using Ping_without_pinger [of "\<lparr>conn_opts = quiet_ops, Parent = legacy_conn\<rparr>" live_ctx world0]
  by (simp add: Ping_def prims fixtures)

subsection \<open>CheckNamedValue\<close>

text \<open>
  Claim C10. With a \<open>driver.NamedValueChecker\<close>, \<open>CheckNamedValue\<close> returns exactly what
  the checker returns for the value, after that one call; without one it returns
  \<open>driver.ErrSkip\<close> and changes nothing. In both cases no span is created and no log
  record is emitted.
\<close>

theorem CheckNamedValue_forwards:
  "(NamedValueChecker (Parent c) = Some checker \<longrightarrow>
      fst (CheckNamedValue c v w) = fst (checker v (drv w)) \<and>
      drv (snd (CheckNamedValue c v w)) = snd (checker v (drv w)) \<and>
      calls_made w (snd (CheckNamedValue c v w)) = [CallCheckNamedValue v]) \<and>
   (NamedValueChecker (Parent c) = None \<longrightarrow>
      CheckNamedValue c v w = ((v, Some ErrSkip), w)) \<and>
   no_span_no_log w (snd (CheckNamedValue c v w))"
  by (simp add: CheckNamedValue_def prims case_prod_beta split: option.splits)

theorem CheckNamedValue_forwards_witness:
  "NamedValueChecker (Parent \<lparr>conn_opts = all_ops, Parent = modern_conn\<rparr>) = Some ex_CheckNamedValue \<and>
   fst (CheckNamedValue \<lparr>conn_opts = all_ops, Parent = modern_conn\<rparr> named_arg world0)
     = (named_arg, Some (ErrorString ''named parameters not supported'')) \<and>
   NamedValueChecker (Parent \<lparr>conn_opts = all_ops, Parent = legacy_conn\<rparr>) = None \<and>
   CheckNamedValue \<lparr>conn_opts = all_ops, Parent = legacy_conn\<rparr> named_arg world0
     = ((named_arg, Some ErrSkip), world0)"
  using CheckNamedValue_forwards [of "\<lparr>conn_opts = all_ops, Parent = modern_conn\<rparr>" ex_CheckNamedValue named_arg world0]
    CheckNamedValue_forwards [of "\<lparr>conn_opts = all_ops, Parent = legacy_conn\<rparr>" ex_CheckNamedValue named_arg world0]
  by (simp add: fixtures)

subsection \<open>The legacy methods\<close>

text \<open>
  Claim C9. \<open>Prepare\<close>, \<open>Begin\<close>, \<open>Exec\<close> and \<open>Query\<close> ask nothing of the tracer or the
  logger, for every input and every configuration: the events they add to the trace hold
  no span event and no log record, and they never read the clock.
\<close>

theorem legacy_methods_uninstrumented:
  "filter is_instrumentation (new_events w (snd (Prepare c query w))) = [] \<and>
   filter is_instrumentation (new_events w (snd (Begin c w))) = [] \<and>
   filter is_instrumentation (new_events w (snd (Exec c query vals w))) = [] \<and>
   filter is_instrumentation (new_events w (snd (Query c query vals w))) = [] \<and>
   ticks (snd (Prepare c query w)) = ticks w \<and>
   ticks (snd (Begin c w)) = ticks w \<and>
   ticks (snd (Exec c query vals w)) = ticks w \<and>
   ticks (snd (Query c query vals w)) = ticks w"
  by (simp_all add: Prepare_def Begin_def Exec_def Query_def prims Let_def case_prod_beta
      split: option.splits)

theorem legacy_methods_uninstrumented_witness:
  "new_events world0 (snd (Prepare \<lparr>conn_opts = all_ops, Parent = legacy_conn\<rparr> ''SELECT 1'' world0))
     = [EvParent (CallPrepare ''SELECT 1'')] \<and>
   new_events world0 (snd (Exec \<lparr>conn_opts = all_ops, Parent = legacy_conn\<rparr> ''SELECT 1'' [VInt 42] world0))
     = [EvParent (CallExec ''SELECT 1'' [VInt 42])] \<and>
   filter is_instrumentation
     (new_events world0 (snd (Exec \<lparr>conn_opts = all_ops, Parent = legacy_conn\<rparr> ''SELECT 1'' [VInt 42] world0))) = []"
  using legacy_methods_uninstrumented [of world0 "\<lparr>conn_opts = all_ops, Parent = legacy_conn\<rparr>" "''SELECT 1''" "[VInt 42]"]
  by (simp add: Prepare_def Exec_def prims fixtures)

subsection \<open>BeginTx on a connection without ConnBeginTx\<close>

text \<open>
  Claim C8. When \<open>BeginTx\<close> falls back to the legacy \<open>Begin\<close>, the transaction options
  play no part: any two values of \<open>driver.TxOptions\<close> give the same result and the same
  world, the one call made of the wrapped connection is \<open>Begin()\<close>, which takes no
  options, and the error returned is the error of that call and nothing else.
\<close>

theorem BeginTx_fallback_discards_options:
  "ConnBeginTx (Parent c) = None \<Longrightarrow>
     BeginTx c ctx txopts w = BeginTx c ctx txopts' w \<and>
     calls_made w (snd (BeginTx c ctx txopts w)) = [CallBegin] \<and>
     snd (fst (BeginTx c ctx txopts w)) = snd (fst (conn_Begin (Parent c) (drv w)))"
  by (simp add: BeginTx_def prims Let_def case_prod_beta split: option.splits)

theorem BeginTx_fallback_discards_options_witness:
  "ConnBeginTx (Parent \<lparr>conn_opts = all_ops, Parent = legacy_conn\<rparr>) = None \<and>
   BeginTx \<lparr>conn_opts = all_ops, Parent = legacy_conn\<rparr> live_ctx ro_tx world0
     = BeginTx \<lparr>conn_opts = all_ops, Parent = legacy_conn\<rparr> live_ctx rw_tx world0 \<and>
   fst (BeginTx \<lparr>conn_opts = all_ops, Parent = legacy_conn\<rparr> live_ctx ro_tx world0)
     = (Some \<lparr>tx_opts = all_ops, tx_ctx = Some live_ctx, tx_parent = Some (Tx 0)\<rparr>, None)"
  using BeginTx_fallback_discards_options [of "\<lparr>conn_opts = all_ops, Parent = legacy_conn\<rparr>" live_ctx ro_tx world0 rw_tx]
  by (simp add: BeginTx_def prims fixtures)

subsection \<open>The modern path\<close>

text \<open>What each context-aware method returns when the wrapped connection implements the
  context-aware interface: the call's error if there is one, else a wrapper of what the
  call returned.\<close>

lemma BeginTx_modern:
  "ConnBeginTx (Parent c) = Some f \<Longrightarrow>
     fst (BeginTx c ctx txopts w) =
       (case fst (f ctx txopts (drv w)) of
          (tx, None) \<Rightarrow> (Some \<lparr>tx_opts = conn_opts c, tx_ctx = Some ctx, tx_parent = tx\<rparr>, None)
        | (tx, Some e) \<Rightarrow> (None, Some e))"
  by (simp add: BeginTx_def prims Let_def case_prod_beta split: option.splits)

lemma PrepareContext_modern:
  "ConnPrepareContext (Parent c) = Some f \<Longrightarrow>
     fst (PrepareContext c ctx query w) =
       (case fst (f ctx query (drv w)) of
          (stmt, None) \<Rightarrow> (Some \<lparr>stmt_opts = conn_opts c, stmt_ctx = Some ctx,
                                   stmt_query = query, stmt_parent = stmt\<rparr>, None)
        | (stmt, Some e) \<Rightarrow> (None, Some e))"
  by (simp add: PrepareContext_def prims Let_def case_prod_beta split: option.splits)

lemma ExecContext_modern:
  "ExecerContext (Parent c) = Some f \<Longrightarrow>
     fst (ExecContext h c ctx query args w) =
       (case fst (f ctx query args (drv w)) of
          (res, None) \<Rightarrow> (Some \<lparr>result_opts = conn_opts c, result_ctx = Some ctx,
                                  result_parent = res\<rparr>, None)
        | (res, Some e) \<Rightarrow> (None, Some e))"
  by (simp add: ExecContext_def prims Let_def case_prod_beta split: option.splits)

lemma QueryContext_modern:
  "QueryerContext (Parent c) = Some f \<Longrightarrow>
     fst (QueryContext h c ctx query args w) =
       (case fst (f ctx query args (drv w)) of
          (rows, None) \<Rightarrow> (Some \<lparr>rows_opts = conn_opts c, rows_ctx = Some ctx,
                                   rows_parent = rows\<rparr>, None)
        | (rows, Some e) \<Rightarrow> (None, Some e))"
  by (simp add: QueryContext_def prims Let_def case_prod_beta split: option.splits)

text \<open>
  Claim C5. For \<open>BeginTx\<close>, \<open>PrepareContext\<close>, \<open>ExecContext\<close> and \<open>QueryContext\<close> on a
  connection that implements the context-aware interface: when the modern call returns a
  nil error, the method returns a wrapper whose parent is exactly the artifact of that
  call, holding the connection's options and the call's context, with a nil error; when
  the modern call returns an error, the method returns a nil artifact and that very error.
\<close>

theorem modern_call_wrapped:
  "(ConnBeginTx (Parent c) = Some beginTx \<longrightarrow>
      fst (BeginTx c ctx txopts w) =
        (case fst (beginTx ctx txopts (drv w)) of
           (tx, None) \<Rightarrow> (Some \<lparr>tx_opts = conn_opts c, tx_ctx = Some ctx, tx_parent = tx\<rparr>, None)
         | (tx, Some e) \<Rightarrow> (None, Some e))) \<and>
   (ConnPrepareContext (Parent c) = Some prepareContext \<longrightarrow>
      fst (PrepareContext c ctx query w) =
        (case fst (prepareContext ctx query (drv w)) of
           (stmt, None) \<Rightarrow> (Some \<lparr>stmt_opts = conn_opts c, stmt_ctx = Some ctx,
                                    stmt_query = query, stmt_parent = stmt\<rparr>, None)
         | (stmt, Some e) \<Rightarrow> (None, Some e))) \<and>
   (ExecerContext (Parent c) = Some execContext \<longrightarrow>
      fst (ExecContext h c ctx query args w) =
        (case fst (execContext ctx query args (drv w)) of
           (res, None) \<Rightarrow> (Some \<lparr>result_opts = conn_opts c, result_ctx = Some ctx,
                                   result_parent = res\<rparr>, None)
         | (res, Some e) \<Rightarrow> (None, Some e))) \<and>
   (QueryerContext (Parent c) = Some queryContext \<longrightarrow>
      fst (QueryContext h c ctx query args w) =
        (case fst (queryContext ctx query args (drv w)) of
           (rows, None) \<Rightarrow> (Some \<lparr>rows_opts = conn_opts c, rows_ctx = Some ctx,
                                    rows_parent = rows\<rparr>, None)
         | (rows, Some e) \<Rightarrow> (None, Some e)))"
  using BeginTx_modern [of c beginTx ctx txopts w]
    PrepareContext_modern [of c prepareContext ctx query w]
    ExecContext_modern [of c execContext h ctx query args w]
    QueryContext_modern [of c queryContext h ctx query args w]
  by blast

theorem modern_call_wrapped_witness:
  "ConnBeginTx (Parent \<lparr>conn_opts = all_ops, Parent = modern_conn\<rparr>) = Some ex_BeginTx \<and>
   ConnPrepareContext (Parent \<lparr>conn_opts = all_ops, Parent = modern_conn\<rparr>) = Some ex_PrepareContext \<and>
   ExecerContext (Parent \<lparr>conn_opts = all_ops, Parent = modern_conn\<rparr>) = Some ex_ExecContext \<and>
   QueryerContext (Parent \<lparr>conn_opts = all_ops, Parent = modern_conn\<rparr>) = Some ex_QueryContext \<and>
   fst (BeginTx \<lparr>conn_opts = all_ops, Parent = modern_conn\<rparr> live_ctx ro_tx world0)
     = (None, Some (ErrorString ''read-only not supported'')) \<and>
   fst (PrepareContext \<lparr>conn_opts = all_ops, Parent = modern_conn\<rparr> live_ctx ''SELECT 1'' world0)
     = (Some \<lparr>stmt_opts = all_ops, stmt_ctx = Some live_ctx, stmt_query = ''SELECT 1'',
               stmt_parent = Some (Stmt 0)\<rparr>, None) \<and>
   fst (ExecContext ex_helpers \<lparr>conn_opts = all_ops, Parent = modern_conn\<rparr> live_ctx ''SELECT 1'' [arg1] world0)
     = (Some \<lparr>result_opts = all_ops, result_ctx = Some live_ctx,
               result_parent = Some (Result 1)\<rparr>, None) \<and>
   fst (QueryContext ex_helpers \<lparr>conn_opts = all_ops, Parent = modern_conn\<rparr> live_ctx ''SELECT 1'' [arg1] world0)
     = (Some \<lparr>rows_opts = all_ops, rows_ctx = Some live_ctx,
               rows_parent = Some (Rows 1)\<rparr>, None)"
  using modern_call_wrapped [of "\<lparr>conn_opts = all_ops, Parent = modern_conn\<rparr>" ex_BeginTx
      live_ctx ro_tx world0 ex_PrepareContext "''SELECT 1''" ex_ExecContext ex_helpers "[arg1]" ex_QueryContext]
  by (simp add: fixtures)

subsection \<open>The fallback path of ExecContext and QueryContext\<close>

text \<open>Without the context-aware interface, \<open>ExecContext\<close> and \<open>QueryContext\<close> convert the
  arguments, look at the context, and call the legacy method. \<open>QueryContext\<close> gets there
  only when the connection has a \<open>Queryer\<close>: with neither interface it returns at once.\<close>

lemma ExecContext_fallback:
  "ExecerContext (Parent c) = None \<Longrightarrow> Execer (Parent c) = Some exec \<Longrightarrow>
   \<not> ctx_Done ctx \<Longrightarrow> namedValueToValue h args = (dargs, None) \<Longrightarrow>
     fst (ExecContext h c ctx query args w) =
       (case fst (exec query dargs (drv w)) of
          (res, None) \<Rightarrow> (Some \<lparr>result_opts = conn_opts c, result_ctx = None,
                                  result_parent = res\<rparr>, None)
        | (res, Some e) \<Rightarrow> (None, Some e)) \<and>
     drv (snd (ExecContext h c ctx query args w)) = snd (exec query dargs (drv w)) \<and>
     calls_made w (snd (ExecContext h c ctx query args w)) = [CallExec query dargs]"
  by (simp add: ExecContext_def Exec_def prims Let_def case_prod_beta split: option.splits)

lemma QueryContext_fallback:
  "QueryerContext (Parent c) = None \<Longrightarrow> Queryer (Parent c) = Some qry \<Longrightarrow>
   \<not> ctx_Done ctx \<Longrightarrow> namedValueToValue h args = (dargs, None) \<Longrightarrow>
     fst (QueryContext h c ctx query args w) =
       (case fst (qry query dargs (drv w)) of
          (rows, None) \<Rightarrow> (Some \<lparr>rows_opts = conn_opts c, rows_ctx = None,
                                   rows_parent = rows\<rparr>, None)
        | (rows, Some e) \<Rightarrow> (None, Some e)) \<and>
     drv (snd (QueryContext h c ctx query args w)) = snd (qry query dargs (drv w)) \<and>
     calls_made w (snd (QueryContext h c ctx query args w)) = [CallQuery query dargs]"
  by (simp add: QueryContext_def Query_def prims Let_def case_prod_beta split: option.splits)

lemma ExecContext_conversion_error:
  "ExecerContext (Parent c) = None \<Longrightarrow> namedValueToValue h args = (dargs, Some e) \<Longrightarrow>
     fst (ExecContext h c ctx query args w) = (None, Some e) \<and>
     drv (snd (ExecContext h c ctx query args w)) = drv w \<and>
     calls_made w (snd (ExecContext h c ctx query args w)) = []"
  by (simp add: ExecContext_def prims Let_def case_prod_beta split: option.splits)

lemma QueryContext_conversion_error:
  "QueryerContext (Parent c) = None \<Longrightarrow> Queryer (Parent c) = Some qry \<Longrightarrow>
   namedValueToValue h args = (dargs, Some e) \<Longrightarrow>
     fst (QueryContext h c ctx query args w) = (None, Some e) \<and>
     drv (snd (QueryContext h c ctx query args w)) = drv w \<and>
     calls_made w (snd (QueryContext h c ctx query args w)) = []"
  by (simp add: QueryContext_def prims Let_def case_prod_beta split: option.splits)

lemma ExecContext_cancelled:
  "ExecerContext (Parent c) = None \<Longrightarrow> namedValueToValue h args = (dargs, None) \<Longrightarrow>
   ctx_Done ctx \<Longrightarrow>
     fst (ExecContext h c ctx query args w) = (None, ctx_Err ctx) \<and>
     drv (snd (ExecContext h c ctx query args w)) = drv w \<and>
     calls_made w (snd (ExecContext h c ctx query args w)) = []"
  by (simp add: ExecContext_def prims Let_def case_prod_beta split: option.splits)

lemma QueryContext_cancelled:
  "QueryerContext (Parent c) = None \<Longrightarrow> Queryer (Parent c) = Some qry \<Longrightarrow>
   namedValueToValue h args = (dargs, None) \<Longrightarrow> ctx_Done ctx \<Longrightarrow>
     fst (QueryContext h c ctx query args w) = (None, ctx_Err ctx) \<and>
     drv (snd (QueryContext h c ctx query args w)) = drv w \<and>
     calls_made w (snd (QueryContext h c ctx query args w)) = []"
  by (simp add: QueryContext_def prims Let_def case_prod_beta split: option.splits)

lemma QueryContext_unsupported:
  "QueryerContext (Parent c) = None \<Longrightarrow> Queryer (Parent c) = None \<Longrightarrow>
     QueryContext h c ctx query args w = ((None, Some ErrSkip), w)"
  by (simp add: QueryContext_def)

text \<open>
  Claim C6. On a connection with the legacy \<open>Execer\<close> (\<open>Queryer\<close>) and without the
  context-aware interface, with a context that is not done and arguments that
  \<open>namedValueToValue\<close> converts to \<open>dargs\<close>: \<open>ExecContext\<close> (\<open>QueryContext\<close>) makes the one
  call \<open>Exec(query, dargs)\<close> (\<open>Query(query, dargs)\<close>) and returns its error, or else a
  wrapper of its result; the driver ends in the state that call leaves. When
  \<open>namedValueToValue\<close> fails, its error is returned as it is and no call is made.
\<close>

theorem legacy_fallback_is_direct_call:
  "(ExecerContext (Parent c) = None \<and> Execer (Parent c) = Some exec \<and>
    \<not> ctx_Done ctx \<and> namedValueToValue h args = (dargs, None) \<longrightarrow>
      fst (ExecContext h c ctx query args w) =
        (case fst (exec query dargs (drv w)) of
           (res, None) \<Rightarrow> (Some \<lparr>result_opts = conn_opts c, result_ctx = None,
                                   result_parent = res\<rparr>, None)
         | (res, Some e) \<Rightarrow> (None, Some e)) \<and>
      drv (snd (ExecContext h c ctx query args w)) = snd (exec query dargs (drv w)) \<and>
      calls_made w (snd (ExecContext h c ctx query args w)) = [CallExec query dargs]) \<and>
   (QueryerContext (Parent c) = None \<and> Queryer (Parent c) = Some qry \<and>
    \<not> ctx_Done ctx \<and> namedValueToValue h args = (dargs, None) \<longrightarrow>
      fst (QueryContext h c ctx query args w) =
        (case fst (qry query dargs (drv w)) of
           (rows, None) \<Rightarrow> (Some \<lparr>rows_opts = conn_opts c, rows_ctx = None,
                                    rows_parent = rows\<rparr>, None)
         | (rows, Some e) \<Rightarrow> (None, Some e)) \<and>
      drv (snd (QueryContext h c ctx query args w)) = snd (qry query dargs (drv w)) \<and>
      calls_made w (snd (QueryContext h c ctx query args w)) = [CallQuery query dargs]) \<and>
   (ExecerContext (Parent c) = None \<and> Execer (Parent c) = Some exec \<and>
    namedValueToValue h args = (dargs, Some e) \<longrightarrow>
      fst (ExecContext h c ctx query args w) = (None, Some e) \<and>
      drv (snd (ExecContext h c ctx query args w)) = drv w \<and>
      calls_made w (snd (ExecContext h c ctx query args w)) = []) \<and>
   (QueryerContext (Parent c) = None \<and> Queryer (Parent c) = Some qry \<and>
    namedValueToValue h args = (dargs, Some e) \<longrightarrow>
      fst (QueryContext h c ctx query args w) = (None, Some e) \<and>
      drv (snd (QueryContext h c ctx query args w)) = drv w \<and>
      calls_made w (snd (QueryContext h c ctx query args w)) = [])"
proof (intro conjI impI)
  assume a: "ExecerContext (Parent c) = None \<and> Execer (Parent c) = Some exec \<and>
    \<not> ctx_Done ctx \<and> namedValueToValue h args = (dargs, None)"
  note r = ExecContext_fallback [of c exec ctx h args dargs query w]
  from a r show "fst (ExecContext h c ctx query args w) =
        (case fst (exec query dargs (drv w)) of
           (res, None) \<Rightarrow> (Some \<lparr>result_opts = conn_opts c, result_ctx = None,
                                   result_parent = res\<rparr>, None)
         | (res, Some e) \<Rightarrow> (None, Some e))" by blast
  from a r show "drv (snd (ExecContext h c ctx query args w)) = snd (exec query dargs (drv w))"
    by blast
  from a r show "calls_made w (snd (ExecContext h c ctx query args w)) = [CallExec query dargs]"
    by blast
next
  assume a: "QueryerContext (Parent c) = None \<and> Queryer (Parent c) = Some qry \<and>
    \<not> ctx_Done ctx \<and> namedValueToValue h args = (dargs, None)"
  note r = QueryContext_fallback [of c qry ctx h args dargs query w]
  from a r show "fst (QueryContext h c ctx query args w) =
        (case fst (qry query dargs (drv w)) of
           (rows, None) \<Rightarrow> (Some \<lparr>rows_opts = conn_opts c, rows_ctx = None,
                                    rows_parent = rows\<rparr>, None)
         | (rows, Some e) \<Rightarrow> (None, Some e))" by blast
  from a r show "drv (snd (QueryContext h c ctx query args w)) = snd (qry query dargs (drv w))"
    by blast
  from a r show "calls_made w (snd (QueryContext h c ctx query args w)) = [CallQuery query dargs]"
    by blast
next
  assume a: "ExecerContext (Parent c) = None \<and> Execer (Parent c) = Some exec \<and>
    namedValueToValue h args = (dargs, Some e)"
  note r = ExecContext_conversion_error [of c h args dargs e ctx query w]
  from a r show "fst (ExecContext h c ctx query args w) = (None, Some e)" by blast
  from a r show "drv (snd (ExecContext h c ctx query args w)) = drv w" by blast
  from a r show "calls_made w (snd (ExecContext h c ctx query args w)) = []" by blast
next
  assume a: "QueryerContext (Parent c) = None \<and> Queryer (Parent c) = Some qry \<and>
    namedValueToValue h args = (dargs, Some e)"
  note r = QueryContext_conversion_error [of c qry h args dargs e ctx query w]
  from a r show "fst (QueryContext h c ctx query args w) = (None, Some e)" by blast
  from a r show "drv (snd (QueryContext h c ctx query args w)) = drv w" by blast
  from a r show "calls_made w (snd (QueryContext h c ctx query args w)) = []" by blast
qed

theorem legacy_fallback_is_direct_call_witness:
  "ExecerContext (Parent \<lparr>conn_opts = all_ops, Parent = legacy_conn\<rparr>) = None \<and>
   Execer (Parent \<lparr>conn_opts = all_ops, Parent = legacy_conn\<rparr>) = Some ex_Exec \<and>
   QueryerContext (Parent \<lparr>conn_opts = all_ops, Parent = legacy_conn\<rparr>) = None \<and>
   Queryer (Parent \<lparr>conn_opts = all_ops, Parent = legacy_conn\<rparr>) = Some ex_Query \<and>
   \<not> ctx_Done live_ctx \<and>
   namedValueToValue ex_helpers [arg1] = ([VInt 42], None) \<and>
   namedValueToValue ex_helpers [named_arg]
     = ([], Some (ErrorString ''named parameters not supported'')) \<and>
   fst (ExecContext ex_helpers \<lparr>conn_opts = all_ops, Parent = legacy_conn\<rparr> live_ctx ''SELECT 1'' [arg1] world0)
     = (Some \<lparr>result_opts = all_ops, result_ctx = None, result_parent = Some (Result 1)\<rparr>, None) \<and>
   fst (QueryContext ex_helpers \<lparr>conn_opts = all_ops, Parent = legacy_conn\<rparr> live_ctx [] [arg1] world0)
     = (None, Some (ErrorString ''empty query'')) \<and>
   fst (ExecContext ex_helpers \<lparr>conn_opts = all_ops, Parent = legacy_conn\<rparr> live_ctx ''SELECT 1'' [named_arg] world0)
     = (None, Some (ErrorString ''named parameters not supported'')) \<and>
   calls_made world0
     (snd (QueryContext ex_helpers \<lparr>conn_opts = all_ops, Parent = legacy_conn\<rparr> live_ctx ''SELECT 1'' [named_arg] world0))
     = []"
  using legacy_fallback_is_direct_call [of "\<lparr>conn_opts = all_ops, Parent = legacy_conn\<rparr>"
      ex_Exec live_ctx ex_helpers "[arg1]" "[VInt 42]" "''SELECT 1''" world0 ex_Query]
    legacy_fallback_is_direct_call [of "\<lparr>conn_opts = all_ops, Parent = legacy_conn\<rparr>"
      ex_Exec live_ctx ex_helpers "[arg1]" "[VInt 42]" "[]" world0 ex_Query]
    legacy_fallback_is_direct_call [of "\<lparr>conn_opts = all_ops, Parent = legacy_conn\<rparr>"
      ex_Exec live_ctx ex_helpers "[named_arg]" "[]" "''SELECT 1''" world0 ex_Query
      "ErrorString ''named parameters not supported''"]
  by (simp add: fixtures ctx_Done_def)

subsection \<open>Forwarding\<close>

text \<open>For each method and each path on which it calls the wrapped connection: the error it
  returns is the error of that call, and that call is the only one it makes, with the
  arguments the method received.\<close>

lemma Prepare_forwards:
  "snd (fst (Prepare c query w)) = snd (fst (conn_Prepare (Parent c) query (drv w))) \<and>
   calls_made w (snd (Prepare c query w)) = [CallPrepare query]"
  by (simp add: Prepare_def prims Let_def case_prod_beta)

lemma Close_forwards:
  "fst (Close c w) = fst (conn_Close (Parent c) (drv w)) \<and>
   calls_made w (snd (Close c w)) = [CallClose]"
  by (simp add: Close_def prims Let_def case_prod_beta)

lemma Begin_forwards:
  "snd (fst (Begin c w)) = snd (fst (conn_Begin (Parent c) (drv w))) \<and>
   calls_made w (snd (Begin c w)) = [CallBegin]"
  by (simp add: Begin_def prims Let_def case_prod_beta)

lemma BeginTx_forwards:
  "ConnBeginTx (Parent c) = Some f \<Longrightarrow>
     snd (fst (BeginTx c ctx txopts w)) = snd (fst (f ctx txopts (drv w))) \<and>
     calls_made w (snd (BeginTx c ctx txopts w)) = [CallBeginTx ctx txopts]"
  by (simp add: BeginTx_def prims Let_def case_prod_beta)

lemma BeginTx_fallback_forwards:
  "ConnBeginTx (Parent c) = None \<Longrightarrow>
     snd (fst (BeginTx c ctx txopts w)) = snd (fst (conn_Begin (Parent c) (drv w))) \<and>
     calls_made w (snd (BeginTx c ctx txopts w)) = [CallBegin]"
  by (simp add: BeginTx_def prims Let_def case_prod_beta)

lemma PrepareContext_forwards:
  "ConnPrepareContext (Parent c) = Some f \<Longrightarrow>
     snd (fst (PrepareContext c ctx query w)) = snd (fst (f ctx query (drv w))) \<and>
     calls_made w (snd (PrepareContext c ctx query w)) = [CallPrepareContext ctx query]"
  by (simp add: PrepareContext_def prims Let_def case_prod_beta)

lemma PrepareContext_fallback_forwards:
  "ConnPrepareContext (Parent c) = None \<Longrightarrow>
     snd (fst (PrepareContext c ctx query w))
       = snd (fst (conn_Prepare (Parent c) query (drv w))) \<and>
     calls_made w (snd (PrepareContext c ctx query w)) = [CallPrepare query]"
  by (simp add: PrepareContext_def Prepare_def prims Let_def case_prod_beta)

lemma Exec_forwards:
  "Execer (Parent c) = Some f \<Longrightarrow>
     snd (fst (Exec c query vals w)) = snd (fst (f query vals (drv w))) \<and>
     calls_made w (snd (Exec c query vals w)) = [CallExec query vals]"
  by (simp add: Exec_def prims Let_def case_prod_beta)

lemma Query_forwards:
  "Queryer (Parent c) = Some f \<Longrightarrow>
     snd (fst (Query c query vals w)) = snd (fst (f query vals (drv w))) \<and>
     calls_made w (snd (Query c query vals w)) = [CallQuery query vals]"
  by (simp add: Query_def prims Let_def case_prod_beta)

lemma ExecContext_forwards:
  "ExecerContext (Parent c) = Some f \<Longrightarrow>
     snd (fst (ExecContext h c ctx query args w)) = snd (fst (f ctx query args (drv w))) \<and>
     calls_made w (snd (ExecContext h c ctx query args w)) = [CallExecContext ctx query args]"
  by (simp add: ExecContext_def prims Let_def case_prod_beta)

lemma QueryContext_forwards:
  "QueryerContext (Parent c) = Some f \<Longrightarrow>
     snd (fst (QueryContext h c ctx query args w)) = snd (fst (f ctx query args (drv w))) \<and>
     calls_made w (snd (QueryContext h c ctx query args w)) = [CallQueryContext ctx query args]"
  by (simp add: QueryContext_def prims Let_def case_prod_beta)

lemma ExecContext_fallback_forwards:
  "ExecerContext (Parent c) = None \<Longrightarrow> Execer (Parent c) = Some f \<Longrightarrow>
   namedValueToValue h args = (dargs, None) \<Longrightarrow> \<not> ctx_Done ctx \<Longrightarrow>
     snd (fst (ExecContext h c ctx query args w)) = snd (fst (f query dargs (drv w))) \<and>
     calls_made w (snd (ExecContext h c ctx query args w)) = [CallExec query dargs]"
  by (simp add: ExecContext_def Exec_def prims Let_def case_prod_beta)

lemma QueryContext_fallback_forwards:
  "QueryerContext (Parent c) = None \<Longrightarrow> Queryer (Parent c) = Some f \<Longrightarrow>
   namedValueToValue h args = (dargs, None) \<Longrightarrow> \<not> ctx_Done ctx \<Longrightarrow>
     snd (fst (QueryContext h c ctx query args w)) = snd (fst (f query dargs (drv w))) \<and>
     calls_made w (snd (QueryContext h c ctx query args w)) = [CallQuery query dargs]"
  by (simp add: QueryContext_def Query_def prims Let_def case_prod_beta)

lemma Ping_forwards:
  "Pinger (Parent c) = Some f \<Longrightarrow>
     fst (Ping c ctx w) = fst (f ctx (drv w)) \<and>
     calls_made w (snd (Ping c ctx w)) = [CallPing ctx]"
  by (simp add: Ping_def prims Let_def case_prod_beta)

text \<open>
  Claim C7. For \<open>Prepare\<close>, \<open>Close\<close>, \<open>Begin\<close>, \<open>BeginTx\<close>, \<open>PrepareContext\<close>, \<open>Exec\<close>,
  \<open>ExecContext\<close>, \<open>Ping\<close>, \<open>Query\<close> and \<open>QueryContext\<close>, on every path that calls the
  wrapped connection: the error returned to the caller is the error value the underlying
  call returned (nil when it returned nil), the underlying method is called exactly once,
  and it receives the context, query text and arguments the method was given; on the
  fallback path of \<open>ExecContext\<close> and \<open>QueryContext\<close> the arguments are the positional
  values \<open>namedValueToValue\<close> made of them.
\<close>

theorem delegated_errors_and_arguments_unchanged:
  "snd (fst (Prepare c query w)) = snd (fst (conn_Prepare (Parent c) query (drv w))) \<and>
   calls_made w (snd (Prepare c query w)) = [CallPrepare query] \<and>
   fst (Close c w) = fst (conn_Close (Parent c) (drv w)) \<and>
   calls_made w (snd (Close c w)) = [CallClose] \<and>
   snd (fst (Begin c w)) = snd (fst (conn_Begin (Parent c) (drv w))) \<and>
   calls_made w (snd (Begin c w)) = [CallBegin] \<and>
   (ConnBeginTx (Parent c) = Some beginTx \<longrightarrow>
      snd (fst (BeginTx c ctx txopts w)) = snd (fst (beginTx ctx txopts (drv w))) \<and>
      calls_made w (snd (BeginTx c ctx txopts w)) = [CallBeginTx ctx txopts]) \<and>
   (ConnBeginTx (Parent c) = None \<longrightarrow>
      snd (fst (BeginTx c ctx txopts w)) = snd (fst (conn_Begin (Parent c) (drv w))) \<and>
      calls_made w (snd (BeginTx c ctx txopts w)) = [CallBegin]) \<and>
   (ConnPrepareContext (Parent c) = Some prepareContext \<longrightarrow>
      snd (fst (PrepareContext c ctx query w)) = snd (fst (prepareContext ctx query (drv w))) \<and>
      calls_made w (snd (PrepareContext c ctx query w)) = [CallPrepareContext ctx query]) \<and>
   (ConnPrepareContext (Parent c) = None \<longrightarrow>
      snd (fst (PrepareContext c ctx query w))
        = snd (fst (conn_Prepare (Parent c) query (drv w))) \<and>
      calls_made w (snd (PrepareContext c ctx query w)) = [CallPrepare query]) \<and>
   (Execer (Parent c) = Some exec \<longrightarrow>
      snd (fst (Exec c query vals w)) = snd (fst (exec query vals (drv w))) \<and>
      calls_made w (snd (Exec c query vals w)) = [CallExec query vals]) \<and>
   (ExecerContext (Parent c) = Some execContext \<longrightarrow>
      snd (fst (ExecContext h c ctx query args w))
        = snd (fst (execContext ctx query args (drv w))) \<and>
      calls_made w (snd (ExecContext h c ctx query args w))
        = [CallExecContext ctx query args]) \<and>
   (ExecerContext (Parent c) = None \<and> Execer (Parent c) = Some exec \<and>
    namedValueToValue h args = (dargs, None) \<and> \<not> ctx_Done ctx \<longrightarrow>
      snd (fst (ExecContext h c ctx query args w)) = snd (fst (exec query dargs (drv w))) \<and>
      calls_made w (snd (ExecContext h c ctx query args w)) = [CallExec query dargs]) \<and>
   (Pinger (Parent c) = Some ping \<longrightarrow>
      fst (Ping c ctx w) = fst (ping ctx (drv w)) \<and>
      calls_made w (snd (Ping c ctx w)) = [CallPing ctx]) \<and>
   (Queryer (Parent c) = Some qry \<longrightarrow>
      snd (fst (Query c query vals w)) = snd (fst (qry query vals (drv w))) \<and>
      calls_made w (snd (Query c query vals w)) = [CallQuery query vals]) \<and>
   (QueryerContext (Parent c) = Some queryContext \<longrightarrow>
      snd (fst (QueryContext h c ctx query args w))
        = snd (fst (queryContext ctx query args (drv w))) \<and>
      calls_made w (snd (QueryContext h c ctx query args w))
        = [CallQueryContext ctx query args]) \<and>
   (QueryerContext (Parent c) = None \<and> Queryer (Parent c) = Some qry \<and>
    namedValueToValue h args = (dargs, None) \<and> \<not> ctx_Done ctx \<longrightarrow>
      snd (fst (QueryContext h c ctx query args w)) = snd (fst (qry query dargs (drv w))) \<and>
      calls_made w (snd (QueryContext h c ctx query args w)) = [CallQuery query dargs])"
proof -
  note base = Prepare_forwards [of c query w] Close_forwards [of c w] Begin_forwards [of c w]
  note tx = BeginTx_forwards [of c beginTx ctx txopts w]
    BeginTx_fallback_forwards [of c ctx txopts w]
  note prep = PrepareContext_forwards [of c prepareContext ctx query w]
    PrepareContext_fallback_forwards [of c ctx query w]
  note ex = Exec_forwards [of c exec query vals w]
    ExecContext_forwards [of c execContext h ctx query args w]
    ExecContext_fallback_forwards [of c exec h args dargs ctx query w]
  note qu = Query_forwards [of c qry query vals w]
    QueryContext_forwards [of c queryContext h ctx query args w]
    QueryContext_fallback_forwards [of c qry h args dargs ctx query w]
  note pg = Ping_forwards [of c ping ctx w]
  from base tx prep ex qu pg show ?thesis by blast
qed

theorem delegated_errors_and_arguments_unchanged_witness:
  "fst (ExecContext ex_helpers \<lparr>conn_opts = all_ops, Parent = modern_conn\<rparr> live_ctx [] [arg1] world0)
     = (None, Some (ErrorString ''empty query'')) \<and>
   snd (fst (ex_ExecContext live_ctx [] [arg1] 0)) = Some (ErrorString ''empty query'') \<and>
   calls_made world0
     (snd (ExecContext ex_helpers \<lparr>conn_opts = all_ops, Parent = modern_conn\<rparr> live_ctx [] [arg1] world0))
     = [CallExecContext live_ctx [] [arg1]] \<and>
   fst (BeginTx \<lparr>conn_opts = all_ops, Parent = modern_conn\<rparr> live_ctx ro_tx world0)
     = (None, Some (ErrorString ''read-only not supported'')) \<and>
   fst (Ping \<lparr>conn_opts = all_ops, Parent = modern_conn\<rparr> cancelled_ctx world0) = Some Canceled \<and>
   fst (QueryContext ex_helpers \<lparr>conn_opts = all_ops, Parent = legacy_conn\<rparr> live_ctx [] [arg1] world0)
     = (None, Some (ErrorString ''empty query'')) \<and>
   calls_made world0
     (snd (QueryContext ex_helpers \<lparr>conn_opts = all_ops, Parent = legacy_conn\<rparr> live_ctx [] [arg1] world0))
     = [CallQuery [] [VInt 42]] \<and>
   fst (PrepareContext \<lparr>conn_opts = all_ops, Parent = legacy_conn\<rparr> live_ctx [] world0)
     = (None, Some (ErrorString ''empty query''))"
  using delegated_errors_and_arguments_unchanged [of "\<lparr>conn_opts = all_ops, Parent = modern_conn\<rparr>"
      "[]" world0 ex_BeginTx live_ctx ro_tx ex_PrepareContext ex_Exec "[]" ex_ExecContext
      ex_helpers "[arg1]" "[VInt 42]" ex_Ping ex_Query ex_QueryContext]
    delegated_errors_and_arguments_unchanged [of "\<lparr>conn_opts = all_ops, Parent = modern_conn\<rparr>"
      "[]" world0 ex_BeginTx cancelled_ctx ro_tx ex_PrepareContext ex_Exec "[]" ex_ExecContext
      ex_helpers "[arg1]" "[VInt 42]" ex_Ping ex_Query ex_QueryContext]
    delegated_errors_and_arguments_unchanged [of "\<lparr>conn_opts = all_ops, Parent = legacy_conn\<rparr>"
      "[]" world0 ex_BeginTx live_ctx ro_tx ex_PrepareContext ex_Exec "[]" ex_ExecContext
      ex_helpers "[arg1]" "[VInt 42]" ex_Ping ex_Query ex_QueryContext]
  by (simp add: fixtures ExecContext_def BeginTx_def PrepareContext_def
      Prepare_def QueryContext_def Query_def Ping_def prims)

subsection \<open>Excluded operation kinds\<close>

text \<open>A connection whose options exclude the operation kind, against the same connection
  under any other options \<open>os'\<close>, on the same input and world.\<close>

lemma BeginTx_excluded:
  "hasOpExcluded (conn_opts c) OpSQLTxBegin \<Longrightarrow>
     no_span_no_log w (snd (BeginTx c ctx txopts w)) \<and>
     snd (fst (BeginTx c ctx txopts w))
       = snd (fst (BeginTx (c\<lparr>conn_opts := os'\<rparr>) ctx txopts w)) \<and>
     fst (fst (BeginTx c ctx txopts w))
       = map_option (\<lambda>t. t\<lparr>tx_opts := conn_opts c\<rparr>)
           (fst (fst (BeginTx (c\<lparr>conn_opts := os'\<rparr>) ctx txopts w))) \<and>
     drv (snd (BeginTx c ctx txopts w))
       = drv (snd (BeginTx (c\<lparr>conn_opts := os'\<rparr>) ctx txopts w)) \<and>
     calls_made w (snd (BeginTx c ctx txopts w))
       = calls_made w (snd (BeginTx (c\<lparr>conn_opts := os'\<rparr>) ctx txopts w))"
  by (simp add: BeginTx_def prims Let_def case_prod_beta split: option.splits)

lemma PrepareContext_excluded:
  "hasOpExcluded (conn_opts c) OpSQLPrepare \<Longrightarrow>
     no_span_no_log w (snd (PrepareContext c ctx query w)) \<and>
     snd (fst (PrepareContext c ctx query w))
       = snd (fst (PrepareContext (c\<lparr>conn_opts := os'\<rparr>) ctx query w)) \<and>
     fst (fst (PrepareContext c ctx query w))
       = map_option (\<lambda>t. t\<lparr>stmt_opts := conn_opts c\<rparr>)
           (fst (fst (PrepareContext (c\<lparr>conn_opts := os'\<rparr>) ctx query w))) \<and>
     drv (snd (PrepareContext c ctx query w))
       = drv (snd (PrepareContext (c\<lparr>conn_opts := os'\<rparr>) ctx query w)) \<and>
     calls_made w (snd (PrepareContext c ctx query w))
       = calls_made w (snd (PrepareContext (c\<lparr>conn_opts := os'\<rparr>) ctx query w))"
  by (simp add: PrepareContext_def Prepare_def prims Let_def case_prod_beta split: option.splits)

lemma ExecContext_excluded:
  "hasOpExcluded (conn_opts c) OpSQLConnExec \<Longrightarrow>
     no_span_no_log w (snd (ExecContext h c ctx query args w)) \<and>
     snd (fst (ExecContext h c ctx query args w))
       = snd (fst (ExecContext h (c\<lparr>conn_opts := os'\<rparr>) ctx query args w)) \<and>
     fst (fst (ExecContext h c ctx query args w))
       = map_option (\<lambda>t. t\<lparr>result_opts := conn_opts c\<rparr>)
           (fst (fst (ExecContext h (c\<lparr>conn_opts := os'\<rparr>) ctx query args w))) \<and>
     drv (snd (ExecContext h c ctx query args w))
       = drv (snd (ExecContext h (c\<lparr>conn_opts := os'\<rparr>) ctx query args w)) \<and>
     calls_made w (snd (ExecContext h c ctx query args w))
       = calls_made w (snd (ExecContext h (c\<lparr>conn_opts := os'\<rparr>) ctx query args w))"
  by (simp add: ExecContext_def Exec_def prims Let_def case_prod_beta split: option.splits)

lemma QueryContext_excluded:
  "hasOpExcluded (conn_opts c) OpSQLConnQuery \<Longrightarrow>
     no_span_no_log w (snd (QueryContext h c ctx query args w)) \<and>
     snd (fst (QueryContext h c ctx query args w))
       = snd (fst (QueryContext h (c\<lparr>conn_opts := os'\<rparr>) ctx query args w)) \<and>
     fst (fst (QueryContext h c ctx query args w))
       = map_option (\<lambda>t. t\<lparr>rows_opts := conn_opts c\<rparr>)
           (fst (fst (QueryContext h (c\<lparr>conn_opts := os'\<rparr>) ctx query args w))) \<and>
     drv (snd (QueryContext h c ctx query args w))
       = drv (snd (QueryContext h (c\<lparr>conn_opts := os'\<rparr>) ctx query args w)) \<and>
     calls_made w (snd (QueryContext h c ctx query args w))
       = calls_made w (snd (QueryContext h (c\<lparr>conn_opts := os'\<rparr>) ctx query args w))"
  by (simp add: QueryContext_def Query_def prims Let_def case_prod_beta split: option.splits)

lemma Ping_excluded:
  "hasOpExcluded (conn_opts c) OpSQLPing \<Longrightarrow> Pinger (Parent c) = Some ping \<Longrightarrow>
     no_span_no_log w (snd (Ping c ctx w)) \<and>
     fst (Ping c ctx w) = fst (Ping (c\<lparr>conn_opts := os'\<rparr>) ctx w) \<and>
     drv (snd (Ping c ctx w)) = drv (snd (Ping (c\<lparr>conn_opts := os'\<rparr>) ctx w)) \<and>
     calls_made w (snd (Ping c ctx w))
       = calls_made w (snd (Ping (c\<lparr>conn_opts := os'\<rparr>) ctx w))"
  by (simp add: Ping_def prims Let_def case_prod_beta split: option.splits)

text \<open>What a call does when its kind is excluded, on each path that delegates: the whole
  result and the whole world after it. The one event added is the call of the wrapped
  connection, the driver is in the state that call left, and the result is that call's
  error, or else its artifact in a wrapper.\<close>

lemma BeginTx_excluded_modern:
  "hasOpExcluded (conn_opts c) OpSQLTxBegin \<Longrightarrow> ConnBeginTx (Parent c) = Some f \<Longrightarrow>
     BeginTx c ctx txopts w =
       ((case fst (f ctx txopts (drv w)) of
           (tx, None) \<Rightarrow> (Some \<lparr>tx_opts = conn_opts c, tx_ctx = Some ctx, tx_parent = tx\<rparr>, None)
         | (tx, Some e) \<Rightarrow> (None, Some e)),
        w\<lparr>drv := snd (f ctx txopts (drv w)),
          events := events w @ [EvParent (CallBeginTx ctx txopts)]\<rparr>)"
  by (simp add: BeginTx_def prims Let_def case_prod_beta split: option.splits)

lemma BeginTx_excluded_fallback:
  "hasOpExcluded (conn_opts c) OpSQLTxBegin \<Longrightarrow> ConnBeginTx (Parent c) = None \<Longrightarrow>
     BeginTx c ctx txopts w =
       ((case fst (conn_Begin (Parent c) (drv w)) of
           (tx, None) \<Rightarrow> (Some \<lparr>tx_opts = conn_opts c, tx_ctx = Some ctx, tx_parent = tx\<rparr>, None)
         | (tx, Some e) \<Rightarrow> (None, Some e)),
        w\<lparr>drv := snd (conn_Begin (Parent c) (drv w)),
          events := events w @ [EvParent (CallBegin)]\<rparr>)"
  by (simp add: BeginTx_def prims Let_def case_prod_beta split: option.splits)

lemma PrepareContext_excluded_modern:
  "hasOpExcluded (conn_opts c) OpSQLPrepare \<Longrightarrow> ConnPrepareContext (Parent c) = Some f \<Longrightarrow>
     PrepareContext c ctx query w =
       ((case fst (f ctx query (drv w)) of
           (stmt, None) \<Rightarrow> (Some \<lparr>stmt_opts = conn_opts c, stmt_ctx = Some ctx,
                         stmt_query = query, stmt_parent = stmt\<rparr>, None)
         | (stmt, Some e) \<Rightarrow> (None, Some e)),
        w\<lparr>drv := snd (f ctx query (drv w)),
          events := events w @ [EvParent (CallPrepareContext ctx query)]\<rparr>)"
  by (simp add: PrepareContext_def prims Let_def case_prod_beta split: option.splits)

lemma PrepareContext_excluded_fallback:
  "hasOpExcluded (conn_opts c) OpSQLPrepare \<Longrightarrow> ConnPrepareContext (Parent c) = None \<Longrightarrow>
     PrepareContext c ctx query w =
       ((case fst (conn_Prepare (Parent c) query (drv w)) of
           (stmt, None) \<Rightarrow> (Some \<lparr>stmt_opts = conn_opts c, stmt_ctx = None,
                         stmt_query = query, stmt_parent = stmt\<rparr>, None)
         | (stmt, Some e) \<Rightarrow> (None, Some e)),
        w\<lparr>drv := snd (conn_Prepare (Parent c) query (drv w)),
          events := events w @ [EvParent (CallPrepare query)]\<rparr>)"
  by (simp add: PrepareContext_def Prepare_def prims Let_def case_prod_beta split: option.splits)

lemma ExecContext_excluded_modern:
  "hasOpExcluded (conn_opts c) OpSQLConnExec \<Longrightarrow> ExecerContext (Parent c) = Some f \<Longrightarrow>
     ExecContext h c ctx query args w =
       ((case fst (f ctx query args (drv w)) of
           (res, None) \<Rightarrow> (Some \<lparr>result_opts = conn_opts c, result_ctx = Some ctx,
                         result_parent = res\<rparr>, None)
         | (res, Some e) \<Rightarrow> (None, Some e)),
        w\<lparr>drv := snd (f ctx query args (drv w)),
          events := events w @ [EvParent (CallExecContext ctx query args)]\<rparr>)"
  by (simp add: ExecContext_def prims Let_def case_prod_beta split: option.splits)

lemma ExecContext_excluded_fallback:
  "hasOpExcluded (conn_opts c) OpSQLConnExec \<Longrightarrow> ExecerContext (Parent c) = None \<Longrightarrow> 
   Execer (Parent c) = Some f \<Longrightarrow> namedValueToValue h args = (dargs, None) \<Longrightarrow>
   \<not> ctx_Done ctx \<Longrightarrow>
     ExecContext h c ctx query args w =
       ((case fst (f query dargs (drv w)) of
           (res, None) \<Rightarrow> (Some \<lparr>result_opts = conn_opts c, result_ctx = None,
                         result_parent = res\<rparr>, None)
         | (res, Some e) \<Rightarrow> (None, Some e)),
        w\<lparr>drv := snd (f query dargs (drv w)),
          events := events w @ [EvParent (CallExec query dargs)]\<rparr>)"
  by (simp add: ExecContext_def Exec_def prims Let_def case_prod_beta split: option.splits)

lemma QueryContext_excluded_modern:
  "hasOpExcluded (conn_opts c) OpSQLConnQuery \<Longrightarrow> QueryerContext (Parent c) = Some f \<Longrightarrow>
     QueryContext h c ctx query args w =
       ((case fst (f ctx query args (drv w)) of
           (rows, None) \<Rightarrow> (Some \<lparr>rows_opts = conn_opts c, rows_ctx = Some ctx,
                         rows_parent = rows\<rparr>, None)
         | (rows, Some e) \<Rightarrow> (None, Some e)),
        w\<lparr>drv := snd (f ctx query args (drv w)),
          events := events w @ [EvParent (CallQueryContext ctx query args)]\<rparr>)"
  by (simp add: QueryContext_def prims Let_def case_prod_beta split: option.splits)

lemma QueryContext_excluded_fallback:
  "hasOpExcluded (conn_opts c) OpSQLConnQuery \<Longrightarrow> QueryerContext (Parent c) = None \<Longrightarrow> 
   Queryer (Parent c) = Some f \<Longrightarrow> namedValueToValue h args = (dargs, None) \<Longrightarrow>
   \<not> ctx_Done ctx \<Longrightarrow>
     QueryContext h c ctx query args w =
       ((case fst (f query dargs (drv w)) of
           (rows, None) \<Rightarrow> (Some \<lparr>rows_opts = conn_opts c, rows_ctx = None,
                         rows_parent = rows\<rparr>, None)
         | (rows, Some e) \<Rightarrow> (None, Some e)),
        w\<lparr>drv := snd (f query dargs (drv w)),
          events := events w @ [EvParent (CallQuery query dargs)]\<rparr>)"
  by (simp add: QueryContext_def Query_def prims Let_def case_prod_beta split: option.splits)

lemma Ping_excluded_delegates:
  "hasOpExcluded (conn_opts c) OpSQLPing \<Longrightarrow> Pinger (Parent c) = Some f \<Longrightarrow>
     Ping c ctx w =
       (fst (f ctx (drv w)),
        w\<lparr>drv := snd (f ctx (drv w)), events := events w @ [EvParent (CallPing ctx)]\<rparr>)"
  by (simp add: Ping_def prims Let_def case_prod_beta split: option.splits)

text \<open>
  Claim C3. For \<open>BeginTx\<close>, \<open>PrepareContext\<close>, \<open>ExecContext\<close>, \<open>QueryContext\<close>, and \<open>Ping\<close>
  on a connection with a pinger: when the operation kind is in the exclusion set, the call
  creates no span and emits no log record, and its outcome is that of the same call under
  options \<open>os'\<close> that do not exclude the kind: the same error, the same artifact in the
  same wrapper (each wrapper holding the options of its own connection), the same calls of
  the wrapped connection and the same driver state afterwards. The delegated call still
  happens and its error still propagates: on the modern path and on the legacy path, the
  call of the wrapped connection is the only event added to the trace, the driver ends in
  the state that call left, and the method returns that call's error, or with a nil error
  a wrapper of what that call returned.
\<close>

theorem excluded_operation_same_outcome:
  "(hasOpExcluded (conn_opts c) OpSQLTxBegin \<and> \<not> hasOpExcluded os' OpSQLTxBegin \<longrightarrow>
      no_span_no_log w (snd (BeginTx c ctx txopts w)) \<and>
      snd (fst (BeginTx c ctx txopts w)) = snd (fst (BeginTx (c\<lparr>conn_opts := os'\<rparr>) ctx txopts w)) \<and>
      fst (fst (BeginTx c ctx txopts w))
        = map_option (\<lambda>t. t\<lparr>tx_opts := conn_opts c\<rparr>) (fst (fst (BeginTx (c\<lparr>conn_opts := os'\<rparr>) ctx txopts w))) \<and>
      drv (snd (BeginTx c ctx txopts w)) = drv (snd (BeginTx (c\<lparr>conn_opts := os'\<rparr>) ctx txopts w)) \<and>
      calls_made w (snd (BeginTx c ctx txopts w)) = calls_made w (snd (BeginTx (c\<lparr>conn_opts := os'\<rparr>) ctx txopts w)) \<and>
      (ConnBeginTx (Parent c) = Some beginTx \<longrightarrow>
         BeginTx c ctx txopts w =
           ((case fst (beginTx ctx txopts (drv w)) of
               (tx, None) \<Rightarrow> (Some \<lparr>tx_opts = conn_opts c, tx_ctx = Some ctx, tx_parent = tx\<rparr>, None)
             | (tx, Some e) \<Rightarrow> (None, Some e)),
            w\<lparr>drv := snd (beginTx ctx txopts (drv w)),
              events := events w @ [EvParent (CallBeginTx ctx txopts)]\<rparr>)) \<and>
      (ConnBeginTx (Parent c) = None \<longrightarrow>
         BeginTx c ctx txopts w =
           ((case fst (conn_Begin (Parent c) (drv w)) of
               (tx, None) \<Rightarrow> (Some \<lparr>tx_opts = conn_opts c, tx_ctx = Some ctx, tx_parent = tx\<rparr>, None)
             | (tx, Some e) \<Rightarrow> (None, Some e)),
            w\<lparr>drv := snd (conn_Begin (Parent c) (drv w)),
              events := events w @ [EvParent (CallBegin)]\<rparr>))) \<and>
   (hasOpExcluded (conn_opts c) OpSQLPrepare \<and> \<not> hasOpExcluded os' OpSQLPrepare \<longrightarrow>
      no_span_no_log w (snd (PrepareContext c ctx query w)) \<and>
      snd (fst (PrepareContext c ctx query w)) = snd (fst (PrepareContext (c\<lparr>conn_opts := os'\<rparr>) ctx query w)) \<and>
      fst (fst (PrepareContext c ctx query w))
        = map_option (\<lambda>t. t\<lparr>stmt_opts := conn_opts c\<rparr>) (fst (fst (PrepareContext (c\<lparr>conn_opts := os'\<rparr>) ctx query w))) \<and>
      drv (snd (PrepareContext c ctx query w)) = drv (snd (PrepareContext (c\<lparr>conn_opts := os'\<rparr>) ctx query w)) \<and>
      calls_made w (snd (PrepareContext c ctx query w)) = calls_made w (snd (PrepareContext (c\<lparr>conn_opts := os'\<rparr>) ctx query w)) \<and>
      (ConnPrepareContext (Parent c) = Some prepareContext \<longrightarrow>
         PrepareContext c ctx query w =
           ((case fst (prepareContext ctx query (drv w)) of
               (stmt, None) \<Rightarrow> (Some \<lparr>stmt_opts = conn_opts c, stmt_ctx = Some ctx,
                             stmt_query = query, stmt_parent = stmt\<rparr>, None)
             | (stmt, Some e) \<Rightarrow> (None, Some e)),
            w\<lparr>drv := snd (prepareContext ctx query (drv w)),
              events := events w @ [EvParent (CallPrepareContext ctx query)]\<rparr>)) \<and>
      (ConnPrepareContext (Parent c) = None \<longrightarrow>
         PrepareContext c ctx query w =
           ((case fst (conn_Prepare (Parent c) query (drv w)) of
               (stmt, None) \<Rightarrow> (Some \<lparr>stmt_opts = conn_opts c, stmt_ctx = None,
                             stmt_query = query, stmt_parent = stmt\<rparr>, None)
             | (stmt, Some e) \<Rightarrow> (None, Some e)),
            w\<lparr>drv := snd (conn_Prepare (Parent c) query (drv w)),
              events := events w @ [EvParent (CallPrepare query)]\<rparr>))) \<and>
   (hasOpExcluded (conn_opts c) OpSQLConnExec \<and> \<not> hasOpExcluded os' OpSQLConnExec \<longrightarrow>
      no_span_no_log w (snd (ExecContext h c ctx query args w)) \<and>
      snd (fst (ExecContext h c ctx query args w)) = snd (fst (ExecContext h (c\<lparr>conn_opts := os'\<rparr>) ctx query args w)) \<and>
      fst (fst (ExecContext h c ctx query args w))
        = map_option (\<lambda>t. t\<lparr>result_opts := conn_opts c\<rparr>) (fst (fst (ExecContext h (c\<lparr>conn_opts := os'\<rparr>) ctx query args w))) \<and>
      drv (snd (ExecContext h c ctx query args w)) = drv (snd (ExecContext h (c\<lparr>conn_opts := os'\<rparr>) ctx query args w)) \<and>
      calls_made w (snd (ExecContext h c ctx query args w)) = calls_made w (snd (ExecContext h (c\<lparr>conn_opts := os'\<rparr>) ctx query args w)) \<and>
      (ExecerContext (Parent c) = Some execContext \<longrightarrow>
         ExecContext h c ctx query args w =
           ((case fst (execContext ctx query args (drv w)) of
               (res, None) \<Rightarrow> (Some \<lparr>result_opts = conn_opts c, result_ctx = Some ctx,
                             result_parent = res\<rparr>, None)
             | (res, Some e) \<Rightarrow> (None, Some e)),
            w\<lparr>drv := snd (execContext ctx query args (drv w)),
              events := events w @ [EvParent (CallExecContext ctx query args)]\<rparr>)) \<and>
      (ExecerContext (Parent c) = None \<and> Execer (Parent c) = Some exec \<and>
       namedValueToValue h args = (dargs, None) \<and> \<not> ctx_Done ctx \<longrightarrow>
         ExecContext h c ctx query args w =
           ((case fst (exec query dargs (drv w)) of
               (res, None) \<Rightarrow> (Some \<lparr>result_opts = conn_opts c, result_ctx = None,
                             result_parent = res\<rparr>, None)
             | (res, Some e) \<Rightarrow> (None, Some e)),
            w\<lparr>drv := snd (exec query dargs (drv w)),
              events := events w @ [EvParent (CallExec query dargs)]\<rparr>))) \<and>
   (hasOpExcluded (conn_opts c) OpSQLConnQuery \<and> \<not> hasOpExcluded os' OpSQLConnQuery \<longrightarrow>
      no_span_no_log w (snd (QueryContext h c ctx query args w)) \<and>
      snd (fst (QueryContext h c ctx query args w)) = snd (fst (QueryContext h (c\<lparr>conn_opts := os'\<rparr>) ctx query args w)) \<and>
      fst (fst (QueryContext h c ctx query args w))
        = map_option (\<lambda>t. t\<lparr>rows_opts := conn_opts c\<rparr>) (fst (fst (QueryContext h (c\<lparr>conn_opts := os'\<rparr>) ctx query args w))) \<and>
      drv (snd (QueryContext h c ctx query args w)) = drv (snd (QueryContext h (c\<lparr>conn_opts := os'\<rparr>) ctx query args w)) \<and>
      calls_made w (snd (QueryContext h c ctx query args w)) = calls_made w (snd (QueryContext h (c\<lparr>conn_opts := os'\<rparr>) ctx query args w)) \<and>
      (QueryerContext (Parent c) = Some queryContext \<longrightarrow>
         QueryContext h c ctx query args w =
           ((case fst (queryContext ctx query args (drv w)) of
               (rows, None) \<Rightarrow> (Some \<lparr>rows_opts = conn_opts c, rows_ctx = Some ctx,
                             rows_parent = rows\<rparr>, None)
             | (rows, Some e) \<Rightarrow> (None, Some e)),
            w\<lparr>drv := snd (queryContext ctx query args (drv w)),
              events := events w @ [EvParent (CallQueryContext ctx query args)]\<rparr>)) \<and>
      (QueryerContext (Parent c) = None \<and> Queryer (Parent c) = Some qry \<and>
       namedValueToValue h args = (dargs, None) \<and> \<not> ctx_Done ctx \<longrightarrow>
         QueryContext h c ctx query args w =
           ((case fst (qry query dargs (drv w)) of
               (rows, None) \<Rightarrow> (Some \<lparr>rows_opts = conn_opts c, rows_ctx = None,
                             rows_parent = rows\<rparr>, None)
             | (rows, Some e) \<Rightarrow> (None, Some e)),
            w\<lparr>drv := snd (qry query dargs (drv w)),
              events := events w @ [EvParent (CallQuery query dargs)]\<rparr>))) \<and>
   (hasOpExcluded (conn_opts c) OpSQLPing \<and> \<not> hasOpExcluded os' OpSQLPing \<and>
    Pinger (Parent c) = Some ping \<longrightarrow>
      no_span_no_log w (snd (Ping c ctx w)) \<and>
      fst (Ping c ctx w) = fst (Ping (c\<lparr>conn_opts := os'\<rparr>) ctx w) \<and>
      drv (snd (Ping c ctx w)) = drv (snd (Ping (c\<lparr>conn_opts := os'\<rparr>) ctx w)) \<and>
      calls_made w (snd (Ping c ctx w)) = calls_made w (snd (Ping (c\<lparr>conn_opts := os'\<rparr>) ctx w)) \<and>
      Ping c ctx w =
        (fst (ping ctx (drv w)),
         w\<lparr>drv := snd (ping ctx (drv w)), events := events w @ [EvParent (CallPing ctx)]\<rparr>))"
proof -
  note cmp = BeginTx_excluded [of c w ctx txopts os']
    PrepareContext_excluded [of c w ctx query os']
    ExecContext_excluded [of c w h ctx query args os']
    QueryContext_excluded [of c w h ctx query args os']
    Ping_excluded [of c ping w ctx os']
  note tx = BeginTx_excluded_modern [of c beginTx ctx txopts w]
    BeginTx_excluded_fallback [of c ctx txopts w]
  note prep = PrepareContext_excluded_modern [of c prepareContext ctx query w]
    PrepareContext_excluded_fallback [of c ctx query w]
  note ex = ExecContext_excluded_modern [of c execContext h ctx query args w]
    ExecContext_excluded_fallback [of c exec h args dargs ctx query w]
  note qu = QueryContext_excluded_modern [of c queryContext h ctx query args w]
    QueryContext_excluded_fallback [of c qry h args dargs ctx query w]
  note pg = Ping_excluded_delegates [of c ping ctx w]
  show ?thesis
    apply (intro conjI)
    subgoal
      apply (rule impI, erule conjE, frule cmp(1), elim conjE, intro conjI)
            apply assumption+
       apply (rule impI, erule (1) tx(1))
      apply (rule impI, erule (1) tx(2))
      done
    subgoal
      apply (rule impI, erule conjE, frule cmp(2), elim conjE, intro conjI)
            apply assumption+
       apply (rule impI, erule (1) prep(1))
      apply (rule impI, erule (1) prep(2))
      done
    subgoal
      apply (rule impI, erule conjE, frule cmp(3), elim conjE, intro conjI)
            apply assumption+
       apply (rule impI, erule (1) ex(1))
      apply (rule impI, elim conjE, erule (4) ex(2))
      done
    subgoal
      apply (rule impI, erule conjE, frule cmp(4), elim conjE, intro conjI)
            apply assumption+
       apply (rule impI, erule (1) qu(1))
      apply (rule impI, elim conjE, erule (4) qu(2))
      done
    subgoal
      apply (rule impI, elim conjE, frule (1) cmp(5), elim conjE, intro conjI)
          apply assumption+
      apply (erule (1) pg)
      done
    done
qed

theorem excluded_operation_same_outcome_witness:
  "hasOpExcluded quiet_ops OpSQLTxBegin \<and> \<not> hasOpExcluded all_ops OpSQLTxBegin \<and>
   hasOpExcluded quiet_ops OpSQLPrepare \<and> \<not> hasOpExcluded all_ops OpSQLPrepare \<and>
   hasOpExcluded quiet_ops OpSQLConnExec \<and> \<not> hasOpExcluded all_ops OpSQLConnExec \<and>
   hasOpExcluded quiet_ops OpSQLConnQuery \<and> \<not> hasOpExcluded all_ops OpSQLConnQuery \<and>
   hasOpExcluded quiet_ops OpSQLPing \<and> \<not> hasOpExcluded all_ops OpSQLPing \<and>
   Pinger (Parent \<lparr>conn_opts = quiet_ops, Parent = modern_conn\<rparr>) = Some ex_Ping \<and>
   BeginTx \<lparr>conn_opts = quiet_ops, Parent = modern_conn\<rparr> live_ctx ro_tx world0
     = ((None, Some (ErrorString ''read-only not supported'')),
        world0\<lparr>drv := 1, events := [EvParent (CallBeginTx live_ctx ro_tx)]\<rparr>) \<and>
   fst (BeginTx \<lparr>conn_opts = all_ops, Parent = modern_conn\<rparr> live_ctx ro_tx world0)
     = (None, Some (ErrorString ''read-only not supported'')) \<and>
   PrepareContext \<lparr>conn_opts = quiet_ops, Parent = modern_conn\<rparr> live_ctx ''SELECT 1'' world0
     = ((Some \<lparr>stmt_opts = quiet_ops, stmt_ctx = Some live_ctx, stmt_query = ''SELECT 1'',
                stmt_parent = Some (Stmt 0)\<rparr>, None),
        world0\<lparr>drv := 1, events := [EvParent (CallPrepareContext live_ctx ''SELECT 1'')]\<rparr>) \<and>
   fst (PrepareContext \<lparr>conn_opts = all_ops, Parent = modern_conn\<rparr> live_ctx ''SELECT 1'' world0)
     = (Some \<lparr>stmt_opts = all_ops, stmt_ctx = Some live_ctx, stmt_query = ''SELECT 1'',
               stmt_parent = Some (Stmt 0)\<rparr>, None) \<and>
   ExecContext ex_helpers \<lparr>conn_opts = quiet_ops, Parent = modern_conn\<rparr> live_ctx ''SELECT 1'' [arg1] world0
     = ((Some \<lparr>result_opts = quiet_ops, result_ctx = Some live_ctx,
                result_parent = Some (Result 1)\<rparr>, None),
        world0\<lparr>drv := 1,
          events := [EvParent (CallExecContext live_ctx ''SELECT 1'' [arg1])]\<rparr>) \<and>
   QueryContext ex_helpers \<lparr>conn_opts = quiet_ops, Parent = modern_conn\<rparr> live_ctx ''SELECT 1'' [arg1] world0
     = ((Some \<lparr>rows_opts = quiet_ops, rows_ctx = Some live_ctx,
                rows_parent = Some (Rows 1)\<rparr>, None),
        world0\<lparr>drv := 1,
          events := [EvParent (CallQueryContext live_ctx ''SELECT 1'' [arg1])]\<rparr>) \<and>
   fst (QueryContext ex_helpers \<lparr>conn_opts = all_ops, Parent = modern_conn\<rparr> live_ctx ''SELECT 1'' [arg1] world0)
     = (Some \<lparr>rows_opts = all_ops, rows_ctx = Some live_ctx,
               rows_parent = Some (Rows 1)\<rparr>, None) \<and>
   Ping \<lparr>conn_opts = quiet_ops, Parent = modern_conn\<rparr> cancelled_ctx world0
     = (Some Canceled, world0\<lparr>drv := 1, events := [EvParent (CallPing cancelled_ctx)]\<rparr>) \<and>
   fst (Ping \<lparr>conn_opts = all_ops, Parent = modern_conn\<rparr> cancelled_ctx world0) = Some Canceled \<and>
   BeginTx \<lparr>conn_opts = quiet_ops, Parent = legacy_conn\<rparr> live_ctx ro_tx world0
     = ((Some \<lparr>tx_opts = quiet_ops, tx_ctx = Some live_ctx, tx_parent = Some (Tx 0)\<rparr>, None),
        world0\<lparr>drv := 1, events := [EvParent CallBegin]\<rparr>) \<and>
   PrepareContext \<lparr>conn_opts = quiet_ops, Parent = legacy_conn\<rparr> live_ctx [] world0
     = ((None, Some (ErrorString ''empty query'')),
        world0\<lparr>drv := 1, events := [EvParent (CallPrepare [])]\<rparr>) \<and>
   ExecContext ex_helpers \<lparr>conn_opts = quiet_ops, Parent = legacy_conn\<rparr> live_ctx ''SELECT 1'' [arg1] world0
     = ((Some \<lparr>result_opts = quiet_ops, result_ctx = None,
                result_parent = Some (Result 1)\<rparr>, None),
        world0\<lparr>drv := 1, events := [EvParent (CallExec ''SELECT 1'' [VInt 42])]\<rparr>) \<and>
   QueryContext ex_helpers \<lparr>conn_opts = quiet_ops, Parent = legacy_conn\<rparr> live_ctx [] [arg1] world0
     = ((None, Some (ErrorString ''empty query'')),
        world0\<lparr>drv := 1, events := [EvParent (CallQuery [] [VInt 42])]\<rparr>) \<and>
   fst (QueryContext ex_helpers \<lparr>conn_opts = all_ops, Parent = legacy_conn\<rparr> live_ctx [] [arg1] world0)
     = (None, Some (ErrorString ''empty query''))"
  using excluded_operation_same_outcome [of "\<lparr>conn_opts = quiet_ops, Parent = modern_conn\<rparr>" all_ops world0 live_ctx ro_tx ex_BeginTx
      "''SELECT 1''" ex_PrepareContext ex_helpers "[arg1]" ex_ExecContext ex_Exec "[VInt 42]"
      ex_QueryContext ex_Query ex_Ping]
    excluded_operation_same_outcome [of "\<lparr>conn_opts = quiet_ops, Parent = modern_conn\<rparr>" all_ops world0 cancelled_ctx ro_tx ex_BeginTx
      "''SELECT 1''" ex_PrepareContext ex_helpers "[arg1]" ex_ExecContext ex_Exec "[VInt 42]"
      ex_QueryContext ex_Query ex_Ping]
    excluded_operation_same_outcome [of "\<lparr>conn_opts = quiet_ops, Parent = legacy_conn\<rparr>" all_ops world0 live_ctx ro_tx ex_BeginTx
      "''SELECT 1''" ex_PrepareContext ex_helpers "[arg1]" ex_ExecContext ex_Exec "[VInt 42]"
      ex_QueryContext ex_Query ex_Ping]
    excluded_operation_same_outcome [of "\<lparr>conn_opts = quiet_ops, Parent = legacy_conn\<rparr>" all_ops world0 live_ctx ro_tx ex_BeginTx
      "[]" ex_PrepareContext ex_helpers "[arg1]" ex_ExecContext ex_Exec "[VInt 42]"
      ex_QueryContext ex_Query ex_Ping]
  by (simp add: fixtures BeginTx_def PrepareContext_def Prepare_def ExecContext_def Exec_def
      QueryContext_def Query_def Ping_def prims)

subsection \<open>A cancelled context on the fallback path\<close>

text \<open>
  Claim C1. On a connection without the context-aware interface and with a context that is
  already done, the legacy call is not to be made and the error is to be the context's.
  \<open>ExecContext\<close> and \<open>QueryContext\<close> do so (lemmas \<open>ExecContext_cancelled\<close> and
  \<open>QueryContext_cancelled\<close>). \<open>BeginTx\<close> and \<open>PrepareContext\<close> never look at the
  context before they fall back: run here on \<open>legacy_conn\<close> with a cancelled context,
  \<open>BeginTx\<close> calls \<open>Begin()\<close> and \<open>PrepareContext\<close> calls \<open>Prepare(query)\<close>, and both
  return the wrapped artifact with a nil error.
\<close>

theorem BeginTx_PrepareContext_ignore_cancellation:
  "ConnBeginTx (Parent \<lparr>conn_opts = quiet_ops, Parent = legacy_conn\<rparr>) = None \<and>
   ConnPrepareContext (Parent \<lparr>conn_opts = quiet_ops, Parent = legacy_conn\<rparr>) = None \<and>
   ctx_Done cancelled_ctx \<and> ctx_Err cancelled_ctx = Some Canceled \<and>
   BeginTx \<lparr>conn_opts = quiet_ops, Parent = legacy_conn\<rparr> cancelled_ctx rw_tx world0
     = ((Some \<lparr>tx_opts = quiet_ops, tx_ctx = Some cancelled_ctx, tx_parent = Some (Tx 0)\<rparr>, None),
        world0\<lparr>drv := 1, events := [EvParent CallBegin]\<rparr>) \<and>
   PrepareContext \<lparr>conn_opts = quiet_ops, Parent = legacy_conn\<rparr> cancelled_ctx ''SELECT 1'' world0
     = ((Some \<lparr>stmt_opts = quiet_ops, stmt_ctx = None, stmt_query = ''SELECT 1'',
                stmt_parent = Some (Stmt 0)\<rparr>, None),
        world0\<lparr>drv := 1, events := [EvParent (CallPrepare ''SELECT 1'')]\<rparr>)"
  by (simp add: BeginTx_def PrepareContext_def Prepare_def prims fixtures)

subsection \<open>ExecContext on a connection with neither Execer nor ExecerContext\<close>

text \<open>
  Claim C2. On a connection with neither the context-aware nor the legacy interface,
  connection-level exec and query are to return \<open>driver.ErrSkip\<close> before any span is
  created. \<open>QueryContext\<close> does so on its first lines (lemma \<open>QueryContext_unsupported\<close>).
  \<open>ExecContext\<close> has no such check: run here on \<open>bare_conn\<close> with no kind excluded, it
  creates a span, labels and finishes it and logs the query before \<open>ErrSkip\<close> comes back
  from \<open>Exec\<close>; and with a cancelled context the error is the context's, not \<open>ErrSkip\<close>.
\<close>

theorem ExecContext_unsupported_is_instrumented:
  "ExecerContext (Parent \<lparr>conn_opts = all_ops, Parent = bare_conn\<rparr>) = None \<and>
   Execer (Parent \<lparr>conn_opts = all_ops, Parent = bare_conn\<rparr>) = None \<and>
   ExecContext ex_helpers \<lparr>conn_opts = all_ops, Parent = bare_conn\<rparr> live_ctx ''SELECT 1'' [] world0
     = ((None, Some ErrSkip),
        world0\<lparr>events :=
          [EvNewChild (CtxSpan 7) OpSQLConnExec,
           EvSetLabel (ChildSpan (CtxSpan 7) OpSQLConnExec) ''component'' ''database/sql'',
           EvSetLabel (ChildSpan (CtxSpan 7) OpSQLConnExec) ''query'' ''SELECT 1'',
           EvSetLabel (ChildSpan (CtxSpan 7) OpSQLConnExec) ''args'' [],
           EvSetError (ChildSpan (CtxSpan 7) OpSQLConnExec) (Some ErrSkip),
           EvFinish (ChildSpan (CtxSpan 7) OpSQLConnExec),
           EvLogQuery live_ctx all_ops OpSQLConnExec ''SELECT 1'' (Some ErrSkip) (Some []) 0],
          ticks := 1\<rparr>) \<and>
   fst (ExecContext ex_helpers \<lparr>conn_opts = all_ops, Parent = bare_conn\<rparr> cancelled_ctx ''SELECT 1'' [] world0)
     = (None, Some Canceled)"
  by (simp add: ExecContext_def Exec_def prims fixtures)

end
